theory Spec2Isabelle
  imports Complex_Main
begin

section \<open>Floating-point values\<close>

text \<open>
  Tensors and numpy arrays of \<^verbatim>\<open>p2ch12/train_seg.py\<close> hold IEEE floats. A value is
  modelled as an exact real or one of the three special values; the operations follow
  the IEEE rules for the special values (\<open>0/0\<close> and \<open>inf - inf\<close> are NaN, \<open>x/0\<close> is an
  infinity, NaN compares unequal to everything). Rounding, overflow of a finite result
  and the sign of zero are not modelled: a finite result is the exact real.
\<close>

datatype npfloat = Fin real | PInf | NInf | NaN

datatype error = AssertionError | ShapeError | IndexError

fun isfinite :: "npfloat \<Rightarrow> bool" where
  "isfinite (Fin _) = True"
| "isfinite _ = False"

text \<open>The real number that a finite value holds.\<close>

fun fin_val :: "npfloat \<Rightarrow> real" where
  "fin_val (Fin a) = a"
| "fin_val _ = 0"

fun is_neg :: "npfloat \<Rightarrow> bool" where
  "is_neg (Fin a) = (a < 0)"
| "is_neg NInf = True"
| "is_neg _ = False"

fun fneg :: "npfloat \<Rightarrow> npfloat" where
  "fneg (Fin a) = Fin (- a)"
| "fneg PInf = NInf"
| "fneg NInf = PInf"
| "fneg NaN = NaN"

fun fadd :: "npfloat \<Rightarrow> npfloat \<Rightarrow> npfloat" where
  "fadd (Fin a) (Fin b) = Fin (a + b)"
| "fadd NaN _ = NaN"
| "fadd _ NaN = NaN"
| "fadd PInf NInf = NaN"
| "fadd NInf PInf = NaN"
| "fadd PInf _ = PInf"
| "fadd _ PInf = PInf"
| "fadd NInf _ = NInf"
| "fadd _ NInf = NInf"

definition fsub :: "npfloat \<Rightarrow> npfloat \<Rightarrow> npfloat" where
  "fsub a b = fadd a (fneg b)"

fun fmul :: "npfloat \<Rightarrow> npfloat \<Rightarrow> npfloat" where
  "fmul (Fin a) (Fin b) = Fin (a * b)"
| "fmul NaN _ = NaN"
| "fmul _ NaN = NaN"
| "fmul a b =
     (if a = Fin 0 \<or> b = Fin 0 then NaN
      else if is_neg a = is_neg b then PInf else NInf)"

fun fdiv :: "npfloat \<Rightarrow> npfloat \<Rightarrow> npfloat" where
  "fdiv (Fin a) (Fin b) =
     (if b = 0 then (if a = 0 then NaN else if 0 < a then PInf else NInf)
      else Fin (a / b))"
| "fdiv NaN _ = NaN"
| "fdiv _ NaN = NaN"
| "fdiv (Fin a) _ = Fin 0"
| "fdiv a (Fin b) = (if is_neg a = (b < 0) then PInf else NInf)"
| "fdiv _ _ = NaN"

text \<open>Comparisons: every comparison with NaN is false.\<close>

fun flt :: "npfloat \<Rightarrow> npfloat \<Rightarrow> bool" where
  "flt NaN _ = False"
| "flt _ NaN = False"
| "flt (Fin a) (Fin b) = (a < b)"
| "flt NInf NInf = False"
| "flt NInf _ = True"
| "flt _ NInf = False"
| "flt PInf _ = False"
| "flt _ PInf = True"

definition fgt :: "npfloat \<Rightarrow> npfloat \<Rightarrow> bool" where
  "fgt a b = flt b a"

definition feq :: "npfloat \<Rightarrow> npfloat \<Rightarrow> bool" where
  "feq a b = (a \<noteq> NaN \<and> a = b)"

definition fge :: "npfloat \<Rightarrow> npfloat \<Rightarrow> bool" where
  "fge a b = (flt b a \<or> feq a b)"

text \<open>The sum of the elements of a one-dimensional array; the empty sum is 0.\<close>

definition fsum :: "npfloat list \<Rightarrow> npfloat" where
  "fsum xs = foldr fadd xs (Fin 0)"

section \<open>Tensors with a batch dimension\<close>

text \<open>
  A tensor of shape \<open>[N, ...]\<close> is the list of its \<open>N\<close> samples, each sample the flat
  list of its elements, which is what \<^verbatim>\<open>t.view(t.size(0), -1)\<close> produces. Elementwise
  operations are defined on tensors of the same shape; broadcasting between different
  shapes is not modelled, and the operations that combine two tensors are guarded by
  \<open>same_shape\<close> where the source function is entered (a mismatch is the
  dimension-mismatch error).
\<close>

type_synonym tensor = "npfloat list list"

definition same_shape :: "tensor \<Rightarrow> tensor \<Rightarrow> bool" where
  "same_shape a b = (map length a = map length b)"

definition tmul :: "tensor \<Rightarrow> tensor \<Rightarrow> tensor" where
  "tmul a b = map2 (map2 fmul) a b"

definition one_minus :: "tensor \<Rightarrow> tensor" where
  "one_minus a = map (map (fsub (Fin 1))) a"

text \<open>\<^verbatim>\<open>lambda t: t.view(t.size(0), -1).sum(dim=1)\<close>\<close>

definition sum_dim1 :: "tensor \<Rightarrow> npfloat list" where
  "sum_dim1 t = map fsum t"

section \<open>diceLoss\<close>

text \<open>
  \<^verbatim>\<open>diceLoss(self, label_devtensor, prediction_devtensor, epsilon=1024, p=False)\<close>.
  The flag \<open>p\<close> only switches debug printing on and no caller sets it.
\<close>

definition diceLoss :: "tensor \<Rightarrow> tensor \<Rightarrow> npfloat \<Rightarrow> error + npfloat list" where
  "diceLoss label_devtensor prediction_devtensor epsilon =
     (if \<not> same_shape label_devtensor prediction_devtensor then Inl ShapeError
      else
        let diceLabel_devtensor = sum_dim1 label_devtensor;
            dicePrediction_devtensor = sum_dim1 prediction_devtensor;
            diceCorrect_devtensor = sum_dim1 (tmul prediction_devtensor label_devtensor);
            epsilon_devtensor = map (\<lambda>_. fmul (Fin 1) epsilon) diceCorrect_devtensor
        in Inr (map2 (\<lambda>num den. fsub (Fin 1) (fdiv num den))
                  (map2 fadd (map (fmul (Fin 2)) diceCorrect_devtensor) epsilon_devtensor)
                  (map2 fadd (map2 fadd dicePrediction_devtensor diceLabel_devtensor)
                     epsilon_devtensor)))"

text \<open>The default smoothing constant of the signature.\<close>

definition epsilon_default :: npfloat where
  "epsilon_default = Fin 1024"

text \<open>
  The per-sample loss as the specification words it: with \<open>labelSum\<close>, \<open>predSum\<close> and
  \<open>overlap\<close> the sums of label, prediction and label * prediction over one sample,
  the loss is \<open>1 - (2 * overlap + \<epsilon>) / (predSum + labelSum + \<epsilon>)\<close>.
\<close>

definition diceLoss_spec :: "npfloat list \<Rightarrow> npfloat list \<Rightarrow> npfloat \<Rightarrow> npfloat" where
  "diceLoss_spec label prediction epsilon =
     (let labelSum = fsum label;
          predSum = fsum prediction;
          overlap = fsum (map2 fmul label prediction)
      in fsub (Fin 1)
           (fdiv (fadd (fmul (Fin 2) overlap) epsilon)
                 (fadd (fadd predSum labelSum) epsilon)))"

section \<open>The metrics buffer\<close>

text \<open>
  \<^verbatim>\<open>torch.zeros(METRICS_SIZE, len(dl.dataset))\<close>: a list of rows, each row holding one
  value per sample column. The field \<open>writes\<close> is bookkeeping that the source does not
  have: it counts, for every cell, how many slice assignments have stored into it.
\<close>

definition METRICS_LABEL_NDX :: nat where "METRICS_LABEL_NDX = 0"
definition METRICS_LOSS_NDX :: nat where "METRICS_LOSS_NDX = 1"
definition METRICS_MAL_LOSS_NDX :: nat where "METRICS_MAL_LOSS_NDX = 2"
definition METRICS_MTP_NDX :: nat where "METRICS_MTP_NDX = 4"
definition METRICS_MFN_NDX :: nat where "METRICS_MFN_NDX = 5"
definition METRICS_MFP_NDX :: nat where "METRICS_MFP_NDX = 6"
definition METRICS_ATP_NDX :: nat where "METRICS_ATP_NDX = 7"
definition METRICS_AFN_NDX :: nat where "METRICS_AFN_NDX = 8"
definition METRICS_AFP_NDX :: nat where "METRICS_AFP_NDX = 9"
definition METRICS_SIZE :: nat where "METRICS_SIZE = 10"

type_synonym metrics = "npfloat list list"

record metrics_tensor =
  vals :: metrics
  writes :: "nat list list"

definition zeros :: "nat \<Rightarrow> nat \<Rightarrow> metrics_tensor" where
  "zeros rows cols =
     \<lparr>vals = replicate rows (replicate cols (Fin 0)),
      writes = replicate rows (replicate cols 0)\<rparr>"

text \<open>A buffer of \<open>METRICS_SIZE\<close> rows and \<open>n\<close> sample columns.\<close>

definition wf_metrics :: "nat \<Rightarrow> metrics \<Rightarrow> bool" where
  "wf_metrics n m = (length m = METRICS_SIZE \<and> list_all (\<lambda>r. length r = n) m)"

text \<open>\<^verbatim>\<open>np.isfinite(metrics_ary).all()\<close>\<close>

definition all_isfinite :: "metrics \<Rightarrow> bool" where
  "all_isfinite m = list_all (list_all isfinite) m"

definition bind_err :: "error + 'a \<Rightarrow> ('a \<Rightarrow> error + 'b) \<Rightarrow> error + 'b" where
  "bind_err r f = (case r of Inl e \<Rightarrow> Inl e | Inr x \<Rightarrow> f x)"

text \<open>
  \<^verbatim>\<open>metrics_devtensor[row, start_ndx:end_ndx] = values\<close>. The slice is clipped to the
  row, as Python slices are; the values must have the length of the slice, or length 1
  (then the single value is broadcast); anything else is the shape error of torch.
\<close>

definition assign_slice ::
  "nat \<Rightarrow> nat \<Rightarrow> nat \<Rightarrow> npfloat list \<Rightarrow> metrics_tensor \<Rightarrow> error + metrics_tensor" where
  "assign_slice row start_ndx end_ndx values m =
     (if length (vals m) \<le> row then Inl IndexError
      else
        let old = vals m ! row;
            s = min start_ndx (length old);
            e = max s (min end_ndx (length old));
            cnt = writes m ! row
        in if length values = e - s \<or> length values = 1 then
             Inr \<lparr>vals = (vals m)[row :=
                      take s old @
                      (if length values = e - s then values
                       else replicate (e - s) (hd values)) @
                      drop e old],
                  writes = (writes m)[row :=
                      take s cnt @ map Suc (take (e - s) (drop s cnt)) @ drop e cnt]\<rparr>
           else Inl ShapeError)"

section \<open>computeBatchLoss\<close>

text \<open>
  One batch of the data loader. The field \<open>prediction\<close> stands for
  \<^verbatim>\<open>self.model(input_devtensor)\<close>: the network is outside this file, so its output on
  the batch's input tensor is given with the batch. The masks are taken with the shape
  of the label tensor.
\<close>

record batch_tup =
  label_tensor :: tensor
  label_list :: "int list"
  ben_tensor :: tensor
  mal_tensor :: tensor
  prediction :: tensor

text \<open>\<^verbatim>\<open>lambda a, b: (a * b).view(a.size(0), -1).sum(dim=1)\<close>\<close>

definition intersectionSum :: "tensor \<Rightarrow> tensor \<Rightarrow> error + npfloat list" where
  "intersectionSum a b =
     (if same_shape a b then Inr (sum_dim1 (tmul a b)) else Inl ShapeError)"

definition tmul_checked :: "tensor \<Rightarrow> tensor \<Rightarrow> error + tensor" where
  "tmul_checked a b = (if same_shape a b then Inr (tmul a b) else Inl ShapeError)"

text \<open>\<^verbatim>\<open>(prediction_devtensor > 0.5).to(torch.float32)\<close>\<close>

definition threshold :: "tensor \<Rightarrow> tensor" where
  "threshold t = map (map (\<lambda>x. if fgt x (Fin 0.5) then Fin 1 else Fin 0)) t"

text \<open>\<^verbatim>\<open>t.mean()\<close>: the mean of no values is \<open>0/0\<close>, which is NaN.\<close>

definition mean :: "npfloat list \<Rightarrow> npfloat" where
  "mean xs = fdiv (fsum xs) (Fin (real (length xs)))"

definition computeBatchLoss ::
  "nat \<Rightarrow> batch_tup \<Rightarrow> nat \<Rightarrow> metrics_tensor \<Rightarrow> error + (npfloat \<times> metrics_tensor)" where
  "computeBatchLoss batch_ndx batch batch_size metrics_devtensor =
     (let label_devtensor = label_tensor batch;
          mal_devtensor = mal_tensor batch;
          ben_devtensor = ben_tensor batch;
          start_ndx = batch_ndx * batch_size;
          end_ndx = start_ndx + length (label_tensor batch);
          prediction_devtensor = prediction batch
      in
      bind_err (diceLoss label_devtensor prediction_devtensor epsilon_default) (\<lambda>diceLoss_devtensor.
      let predictionBool_devtensor = threshold prediction_devtensor in
      bind_err (assign_slice METRICS_LABEL_NDX start_ndx end_ndx
                  (map (\<lambda>l. Fin (real_of_int l)) (label_list batch)) metrics_devtensor) (\<lambda>m1.
      bind_err (assign_slice METRICS_LOSS_NDX start_ndx end_ndx diceLoss_devtensor m1) (\<lambda>m2.
      bind_err (intersectionSum label_devtensor predictionBool_devtensor) (\<lambda>tp.
      bind_err (intersectionSum label_devtensor (one_minus predictionBool_devtensor)) (\<lambda>fn.
      bind_err (intersectionSum (one_minus label_devtensor) predictionBool_devtensor) (\<lambda>fp.
      bind_err (assign_slice METRICS_ATP_NDX start_ndx end_ndx tp m2) (\<lambda>m3.
      bind_err (assign_slice METRICS_AFN_NDX start_ndx end_ndx fn m3) (\<lambda>m4.
      bind_err (assign_slice METRICS_AFP_NDX start_ndx end_ndx fp m4) (\<lambda>m5.
      bind_err (tmul_checked predictionBool_devtensor (one_minus ben_devtensor)) (\<lambda>malPred_devtensor.
      bind_err (intersectionSum mal_devtensor malPred_devtensor) (\<lambda>tp.
      bind_err (intersectionSum mal_devtensor (one_minus malPred_devtensor)) (\<lambda>fn.
      bind_err (intersectionSum (one_minus label_devtensor) malPred_devtensor) (\<lambda>fp.
      bind_err (diceLoss mal_devtensor malPred_devtensor epsilon_default) (\<lambda>ls.
      bind_err (assign_slice METRICS_MTP_NDX start_ndx end_ndx tp m5) (\<lambda>m6.
      bind_err (assign_slice METRICS_MFN_NDX start_ndx end_ndx fn m6) (\<lambda>m7.
      bind_err (assign_slice METRICS_MAL_LOSS_NDX start_ndx end_ndx ls m7) (\<lambda>m8.
      Inr (mean diceLoss_devtensor, m8)))))))))))))))))))"

section \<open>doTraining and doTesting\<close>

text \<open>
  The loop \<^verbatim>\<open>for batch_ndx, batch_tup in batch_iter\<close>, with \<open>batch_ndx\<close> counting from 0.
  The optimizer step of the training loop changes the network only, which shows here
  in the predictions of the later batches.
\<close>

fun batch_loop ::
  "nat \<Rightarrow> nat \<Rightarrow> batch_tup list \<Rightarrow> metrics_tensor \<Rightarrow> error + metrics_tensor" where
  "batch_loop batch_size batch_ndx [] m = Inr m"
| "batch_loop batch_size batch_ndx (b # bs) m =
     bind_err (computeBatchLoss batch_ndx b batch_size m)
       (\<lambda>(loss_var, m'). batch_loop batch_size (Suc batch_ndx) bs m')"

text \<open>\<open>dataset_len\<close> is \<^verbatim>\<open>len(test_dl.dataset)\<close>, \<open>batch_size\<close> is \<^verbatim>\<open>test_dl.batch_size\<close>.\<close>

definition doTesting :: "nat \<Rightarrow> nat \<Rightarrow> batch_tup list \<Rightarrow> error + metrics_tensor" where
  "doTesting dataset_len batch_size test_dl =
     batch_loop batch_size 0 test_dl (zeros METRICS_SIZE dataset_len)"

text \<open>
  doTraining also returns the new \<^verbatim>\<open>self.totalTrainingSamples_count\<close>, which it
  increases by \<^verbatim>\<open>trainingMetrics_devtensor.size(1)\<close>.
\<close>

definition doTraining ::
  "nat \<Rightarrow> nat \<Rightarrow> nat \<Rightarrow> batch_tup list \<Rightarrow> error + (metrics_tensor \<times> nat)" where
  "doTraining totalTrainingSamples dataset_len batch_size train_dl =
     bind_err (batch_loop batch_size 0 train_dl (zeros METRICS_SIZE dataset_len))
       (\<lambda>m. Inr (m, totalTrainingSamples + dataset_len))"

section \<open>logMetrics\<close>

record metrics_dict =
  loss_all :: npfloat
  loss_mal :: npfloat
  correct_mal :: npfloat
  correct_all :: npfloat
  pr_precision :: npfloat
  pr_recall :: npfloat
  pr_f1_score :: npfloat

text \<open>
  \<^verbatim>\<open>x or 1\<close>: a numpy float is false exactly when it equals 0 (NaN is true).
\<close>

definition or_1 :: "npfloat \<Rightarrow> npfloat" where
  "or_1 x = (if x = Fin 0 then Fin 1 else x)"

text \<open>The largest finite float32, which \<^verbatim>\<open>np.nan_to_num\<close> puts for an infinity.\<close>

definition FLT_MAX :: real where
  "FLT_MAX = (2 - 1 / 2 ^ 23) * 2 ^ 127"

fun nan_to_num :: "npfloat \<Rightarrow> npfloat" where
  "nan_to_num NaN = Fin 0"
| "nan_to_num PInf = Fin FLT_MAX"
| "nan_to_num NInf = Fin (- FLT_MAX)"
| "nan_to_num (Fin a) = Fin a"

text \<open>\<^verbatim>\<open>ary[mask]\<close>: the elements whose mask entry is true.\<close>

definition masked :: "bool list \<Rightarrow> 'a list \<Rightarrow> 'a list" where
  "masked msk xs = map snd (filter fst (zip msk xs))"

text \<open>The score expression at the end of logMetrics, read from the dictionary.\<close>

definition score_of :: "metrics_dict \<Rightarrow> npfloat" where
  "score_of metrics_dict =
     fsub (fsub (fsub (fadd (Fin 1) (pr_f1_score metrics_dict))
                      (fmul (pr_recall metrics_dict) (Fin 0.01)))
                (fmul (loss_mal metrics_dict) (Fin 0.001)))
          (fmul (loss_all metrics_dict) (Fin 0.0001))"

text \<open>
  logMetrics returns the score; the dictionary it sends to the log and to Tensorboard
  is returned with it. The buffer always has \<open>METRICS_SIZE\<close> rows; a shorter one would
  raise IndexError at the first row it lacks.
\<close>

definition logMetrics :: "metrics \<Rightarrow> error + (metrics_dict \<times> npfloat)" where
  "logMetrics metrics_ary =
     (let sum_ary = map fsum metrics_ary in
      if \<not> all_isfinite metrics_ary then Inl AssertionError
      else if length metrics_ary \<le> METRICS_AFP_NDX then Inl IndexError
      else
        let malLabel_mask =
              map (\<lambda>l. feq l (Fin 1) \<or> feq l (Fin 3)) (metrics_ary ! METRICS_LABEL_NDX);
            precision =
              fdiv (sum_ary ! METRICS_ATP_NDX)
                   (or_1 (fadd (sum_ary ! METRICS_ATP_NDX) (sum_ary ! METRICS_AFP_NDX)));
            recall =
              fdiv (sum_ary ! METRICS_ATP_NDX)
                   (or_1 (fadd (sum_ary ! METRICS_ATP_NDX) (sum_ary ! METRICS_AFN_NDX)));
            metrics_dict =
              \<lparr>loss_all = mean (metrics_ary ! METRICS_LOSS_NDX),
               loss_mal =
                 nan_to_num (mean (masked malLabel_mask (metrics_ary ! METRICS_MAL_LOSS_NDX))),
               correct_mal =
                 fmul (fdiv (sum_ary ! METRICS_MTP_NDX)
                            (fadd (sum_ary ! METRICS_MTP_NDX) (sum_ary ! METRICS_MFN_NDX)))
                      (Fin 100),
               correct_all =
                 fmul (fdiv (sum_ary ! METRICS_ATP_NDX)
                            (fadd (sum_ary ! METRICS_ATP_NDX) (sum_ary ! METRICS_AFN_NDX)))
                      (Fin 100),
               pr_precision = precision,
               pr_recall = recall,
               pr_f1_score =
                 fdiv (fmul (Fin 2) (fmul precision recall)) (or_1 (fadd precision recall))\<rparr>
        in Inr (metrics_dict, score_of metrics_dict))"

section \<open>saveModel and main\<close>

text \<open>\<^verbatim>\<open>'{}'.format(n)\<close> for a non-negative integer: its decimal digits.\<close>

fun str_nat :: "nat \<Rightarrow> string" where
  "str_nat n =
     (if n < 10 then [''0123456789'' ! n]
      else str_nat (n div 10) @ [''0123456789'' ! (n mod 10)])"

declare str_nat.simps [simp del]

text \<open>
  The state dictionary that is saved. \<open>'s\<close> is the type of the state dictionaries of
  the network and of the optimizer, which are outside this file.
\<close>

record 's checkpoint =
  model_state :: 's
  model_name :: string
  optimizer_state :: 's
  optimizer_name :: string
  epoch :: nat
  saved_totalTrainingSamples_count :: nat

text \<open>
  The part of \<^verbatim>\<open>self\<close> that saveModel and main use, and the files under
  \<^verbatim>\<open>data-unversioned/part2/models\<close>, as a map from path to content.
\<close>

record 's app =
  tb_prefix :: string
  comment :: string
  time_str :: string
  totalTrainingSamples_count :: nat
  model_dict :: 's
  optimizer_dict :: 's
  files :: "string \<rightharpoonup> 's checkpoint"

text \<open>
  \<^verbatim>\<open>os.path.join('data-unversioned', 'part2', 'models', tb_prefix,
  '{}_{}_{}.{}.state'.format(type_str, time_str, comment, suffix))\<close>
\<close>

definition file_path :: "'s app \<Rightarrow> string \<Rightarrow> string \<Rightarrow> string" where
  "file_path self type_str suffix =
     ''data-unversioned/part2/models/'' @ tb_prefix self @ ''/'' @
     type_str @ ''_'' @ time_str self @ ''_'' @ comment self @ ''.'' @ suffix @ ''.state''"

definition saveModel :: "'s app \<Rightarrow> string \<Rightarrow> nat \<Rightarrow> bool \<Rightarrow> 's app" where
  "saveModel self type_str epoch_ndx isBest =
     (let state =
            \<lparr>model_state = model_dict self,
             model_name = ''UNetWrapper'',
             optimizer_state = optimizer_dict self,
             optimizer_name = ''SGD'',
             epoch = epoch_ndx,
             saved_totalTrainingSamples_count = totalTrainingSamples_count self\<rparr>;
          self1 = self\<lparr>files := (files self)
                    (file_path self type_str (str_nat (totalTrainingSamples_count self))
                       \<mapsto> state)\<rparr>
      in if isBest
         then self1\<lparr>files := (files self1)(file_path self type_str ''best'' \<mapsto> state)\<rparr>
         else self1)"

text \<open>\<^verbatim>\<open>max(score, best_score)\<close>: the first argument, unless the second is greater.\<close>

definition py_max :: "npfloat \<Rightarrow> npfloat \<Rightarrow> npfloat" where
  "py_max a b = (if fgt b a then b else a)"

text \<open>
  What one pass of the epoch loop of main receives from outside this model: the buffers
  that doTraining and doTesting return, and the state dictionaries of the network and
  the optimizer after the training pass.
\<close>

record 's epoch_input =
  trainingMetrics :: metrics
  testingMetrics :: metrics
  trained_model :: 's
  trained_optimizer :: 's

text \<open>\<^verbatim>\<open>t.size(1)\<close> of a two-dimensional tensor.\<close>

definition size1 :: "metrics \<Rightarrow> nat" where
  "size1 m = length (hd m)"

text \<open>
  The loop \<^verbatim>\<open>for epoch_ndx in range(1, self.cli_args.epochs + 1)\<close>; it carries the local
  \<open>best_score\<close>. logImages only sends pictures to Tensorboard.
\<close>

fun main_loop ::
  "npfloat \<Rightarrow> nat \<Rightarrow> 's app \<Rightarrow> 's epoch_input list \<Rightarrow> error + (npfloat \<times> 's app)" where
  "main_loop best_score epoch_ndx self [] = Inr (best_score, self)"
| "main_loop best_score epoch_ndx self (inp # rest) =
     (let self1 = self\<lparr>totalTrainingSamples_count :=
                     totalTrainingSamples_count self + size1 (trainingMetrics inp),
                   model_dict := trained_model inp,
                   optimizer_dict := trained_optimizer inp\<rparr>
      in
      bind_err (logMetrics (trainingMetrics inp)) (\<lambda>_.
      bind_err (logMetrics (testingMetrics inp)) (\<lambda>(metrics_dict, score).
      let best_score1 = py_max score best_score in
      main_loop best_score1 (Suc epoch_ndx)
        (saveModel self1 ''seg'' epoch_ndx (feq score best_score1)) rest)))"

definition main :: "'s app \<Rightarrow> 's epoch_input list \<Rightarrow> error + 's app" where
  "main self epochs = map_sum id snd (main_loop (Fin 0) 1 self epochs)"

text \<open>
  For stating properties of a run: the score that logMetrics returns for the evaluation
  buffer of an epoch (NaN stands in when logMetrics raises).
\<close>

definition tst_score :: "'s epoch_input \<Rightarrow> npfloat" where
  "tst_score inp =
     (case logMetrics (testingMetrics inp) of Inl e \<Rightarrow> NaN | Inr (d, score) \<Rightarrow> score)"

section \<open>Data-loader batches and write counts\<close>

text \<open>
  A batch of \<open>N\<close> samples whose tensors have one shape.
\<close>

definition wf_batch :: "nat \<Rightarrow> batch_tup \<Rightarrow> bool" where
  "wf_batch N b =
     (length (label_tensor b) = N \<and> length (label_list b) = N \<and>
      same_shape (label_tensor b) (prediction b) \<and>
      same_shape (label_tensor b) (ben_tensor b) \<and>
      same_shape (label_tensor b) (mal_tensor b))"

text \<open>
  The batches that the DataLoader (no shuffling, no dropped last batch) yields for a
  dataset of which \<open>remaining\<close> samples are left: each has \<open>batch_size\<close> samples, the
  last one what is left. \<open>loader_batches\<close> says that they cover the whole dataset.
\<close>

fun batches_from :: "nat \<Rightarrow> nat \<Rightarrow> batch_tup list \<Rightarrow> bool" where
  "batches_from remaining batch_size [] = True"
| "batches_from remaining batch_size (b # rest) =
     (0 < remaining \<and> wf_batch (min batch_size remaining) b \<and>
      batches_from (remaining - min batch_size remaining) batch_size rest)"

definition loader_batches :: "nat \<Rightarrow> nat \<Rightarrow> batch_tup list \<Rightarrow> bool" where
  "loader_batches dataset_len batch_size batches =
     (batches_from dataset_len batch_size batches \<and>
      sum_list (map (\<lambda>b. length (label_tensor b)) batches) = dataset_len)"

text \<open>The rows that computeBatchLoss assigns to.\<close>

definition written_rows :: "nat list" where
  "written_rows =
     [METRICS_LABEL_NDX, METRICS_LOSS_NDX, METRICS_MAL_LOSS_NDX, METRICS_MTP_NDX,
      METRICS_MFN_NDX, METRICS_ATP_NDX, METRICS_AFN_NDX, METRICS_AFP_NDX]"

text \<open>The write counts of a row after one more assignment to the columns \<open>[s, s + N)\<close>.\<close>

definition add_range :: "nat \<Rightarrow> nat \<Rightarrow> nat list \<Rightarrow> nat list" where
  "add_range s N cnt = take s cnt @ map Suc (take N (drop s cnt)) @ drop (s + N) cnt"

text \<open>A buffer of \<open>METRICS_SIZE\<close> rows and \<open>n\<close> columns, with its write counts.\<close>

definition wf_tensor :: "nat \<Rightarrow> metrics_tensor \<Rightarrow> bool" where
  "wf_tensor n m =
     (wf_metrics n (vals m) \<and> length (writes m) = METRICS_SIZE \<and>
      list_all (\<lambda>r. length r = n) (writes m))"

text \<open>
  The state of the buffer between two batches, when the columns below \<open>c\<close> have been
  handled: the rows of \<open>written_rows\<close> have been written once there and not beyond,
  the MFP row and the unused row 3 have never been written and hold zeros.
\<close>

definition buffer_inv :: "nat \<Rightarrow> nat \<Rightarrow> metrics_tensor \<Rightarrow> bool" where
  "buffer_inv n c m =
     (wf_tensor n m \<and>
      list_all (\<lambda>row. writes m ! row = replicate c 1 @ replicate (n - c) 0) written_rows \<and>
      writes m ! METRICS_MFP_NDX = replicate n 0 \<and> writes m ! 3 = replicate n 0 \<and>
      vals m ! METRICS_MFP_NDX = replicate n (Fin 0) \<and> vals m ! 3 = replicate n (Fin 0))"

section \<open>Example inputs\<close>

text \<open>
  A buffer of one sample column with label 0, overall loss \<open>l\<close> and every other entry
  0, the buffer of an epoch without samples, and an application state before its first
  epoch, with no file saved yet.
\<close>

definition loss_only_buffer :: "real \<Rightarrow> metrics" where
  "loss_only_buffer l =
     [[Fin 0], [Fin l], [Fin 0], [Fin 0], [Fin 0], [Fin 0], [Fin 0], [Fin 0], [Fin 0],
      [Fin 0]]"

definition empty_buffer :: metrics where
  "empty_buffer = [[], [], [], [], [], [], [], [], [], []]"

definition fresh_app :: "nat app" where
  "fresh_app =
     \<lparr>tb_prefix = ''p2ch12'', comment = ''none'', time_str = ''t'',
      totalTrainingSamples_count = 0, model_dict = 0, optimizer_dict = 0,
      files = Map.empty\<rparr>"

section \<open>Properties of the arithmetic\<close>

lemmas ndx_defs =
  METRICS_LABEL_NDX_def METRICS_LOSS_NDX_def METRICS_MAL_LOSS_NDX_def
  METRICS_MTP_NDX_def METRICS_MFN_NDX_def METRICS_MFP_NDX_def
  METRICS_ATP_NDX_def METRICS_AFN_NDX_def METRICS_AFP_NDX_def METRICS_SIZE_def

lemma fmul_one_left: "fmul (Fin 1) x = x"
  by (cases x) simp_all

lemma fmul_commute: "fmul a b = fmul b a"
  by (cases a; cases b) (simp_all add: mult.commute)

lemma map2_fmul_commute: "map2 fmul xs ys = map2 fmul ys xs"
proof (induction xs arbitrary: ys)
  case Nil
  then show ?case by simp
next
  case (Cons x xs)
  then show ?case by (cases ys) (simp_all add: fmul_commute)
qed

lemma fsum_Nil: "fsum [] = Fin 0"
  by (simp add: fsum_def)

lemma fsum_Cons: "fsum (x # xs) = fadd x (fsum xs)"
  by (simp add: fsum_def)

lemma fsum_Fin: "fsum (map Fin rs) = Fin (sum_list rs)"
  by (induction rs) (simp_all add: fsum_Nil fsum_Cons)

lemma finite_list_is_map_Fin: "list_all isfinite xs \<Longrightarrow> xs = map Fin (map fin_val xs)"
proof (induction xs)
  case Nil
  then show ?case by simp
next
  case (Cons x xs)
  then show ?case by (cases x) simp_all
qed

lemma map2_fmul_Fin: "map2 fmul (map Fin l) (map Fin p) = map Fin (map2 (*) l p)"
proof (induction l arbitrary: p)
  case Nil
  then show ?case by simp
next
  case (Cons x l)
  then show ?case by (cases p) simp_all
qed

section \<open>Properties of diceLoss\<close>

lemma same_shape_length: "same_shape a b \<Longrightarrow> length a = length b"
  unfolding same_shape_def by (metis length_map)

lemma same_shape_Cons:
  "same_shape (x # a) (y # b) = (length x = length y \<and> same_shape a b)"
  by (simp add: same_shape_def)

lemma same_shape_refl: "same_shape a a"
  by (simp add: same_shape_def)

lemma same_shape_zip:
  "same_shape a b \<Longrightarrow> (l, p) \<in> set (zip a b) \<Longrightarrow> length l = length p"
proof (induction a arbitrary: b)
  case Nil
  then show ?case by simp
next
  case (Cons x a)
  then show ?case by (cases b) (auto simp: same_shape_Cons)
qed

lemma diceLoss_map2_aux:
  "length a = length b \<Longrightarrow>
   map2 (\<lambda>num den. fsub (Fin 1) (fdiv num den))
     (map2 fadd (map (fmul (Fin 2)) (map fsum (map2 (map2 fmul) b a)))
        (map (\<lambda>_. fmul (Fin 1) eps) (map fsum (map2 (map2 fmul) b a))))
     (map2 fadd (map2 fadd (map fsum b) (map fsum a))
        (map (\<lambda>_. fmul (Fin 1) eps) (map fsum (map2 (map2 fmul) b a))))
   = map2 (\<lambda>l p. diceLoss_spec l p eps) a b"
proof (induction a b rule: list_induct2)
  case Nil
  then show ?case by simp
next
  case (Cons x xs y ys)
  then show ?case
    by (simp add: diceLoss_spec_def Let_def fmul_one_left map2_fmul_commute [of y x])
qed

lemma diceLoss_eq_spec:
  assumes "same_shape label_t prediction_t"
  shows "diceLoss label_t prediction_t eps =
           Inr (map2 (\<lambda>label prediction. diceLoss_spec label prediction eps)
                  label_t prediction_t)"
  using assms diceLoss_map2_aux [OF same_shape_length [OF assms], of eps]
  by (simp add: diceLoss_def Let_def sum_dim1_def tmul_def)

text \<open>
  C6. For label and prediction tensors of the same shape and any smoothing constant,
  diceLoss returns one value per sample, and the value of a sample is
  \<open>1 - (2 * overlap + \<epsilon>) / (predSum + labelSum + \<epsilon>)\<close>, with the three sums taken over
  that sample (\<open>diceLoss_spec\<close>).
\<close>

theorem diceLoss_per_sample:
  assumes "same_shape label_t prediction_t"
  shows "\<exists>losses. diceLoss label_t prediction_t eps = Inr losses \<and>
           length losses = length label_t \<and>
           (\<forall>i<length label_t.
              losses ! i = diceLoss_spec (label_t ! i) (prediction_t ! i) eps)"
proof -
  have "length label_t = length prediction_t"
    by (rule same_shape_length [OF assms])
  then show ?thesis
    by (simp add: diceLoss_eq_spec [OF assms])
qed

theorem diceLoss_per_sample_witness:
  "same_shape [[Fin 1, Fin 0]] [[Fin (1/4), Fin (1/2)]] \<and>
   diceLoss [[Fin 1, Fin 0]] [[Fin (1/4), Fin (1/2)]] (Fin 1024) = Inr [Fin (5 / 4103)] \<and>
   diceLoss_spec [Fin 1, Fin 0] [Fin (1/4), Fin (1/2)] (Fin 1024) = Fin (5 / 4103)"
proof -
  have h: "same_shape [[Fin 1, Fin 0]] [[Fin (1/4), Fin (1/2)]]"
    by (simp add: same_shape_def)
  have v: "diceLoss_spec [Fin 1, Fin 0] [Fin (1/4), Fin (1/2)] (Fin 1024) = Fin (5 / 4103)"
    by (simp add: diceLoss_spec_def fsum_def fsub_def)
  from diceLoss_per_sample [OF h, of "Fin 1024"] v h show ?thesis
    by (auto simp: length_Suc_conv)
qed

lemma diceLoss_spec_Fin:
  assumes "sum_list p + sum_list l + e \<noteq> 0"
  shows "diceLoss_spec (map Fin l) (map Fin p) (Fin e) =
           Fin (1 - (2 * sum_list (map2 (*) l p) + e) / (sum_list p + sum_list l + e))"
  unfolding diceLoss_spec_def Let_def map2_fmul_Fin fsum_Fin fsub_def
  using assms by simp

lemma overlap_bounds:
  fixes l p :: "real list"
  assumes "length l = length p"
    and "\<forall>x\<in>set l. x = 0 \<or> x = 1"
    and "\<forall>x\<in>set p. 0 \<le> x \<and> x \<le> 1"
  shows "0 \<le> sum_list (map2 (*) l p) \<and> sum_list (map2 (*) l p) \<le> sum_list l \<and>
         sum_list (map2 (*) l p) \<le> sum_list p"
  using assms
proof (induction l p rule: list_induct2)
  case Nil
  then show ?case by simp
next
  case (Cons x xs y ys)
  then have IH: "0 \<le> sum_list (map2 (*) xs ys)" "sum_list (map2 (*) xs ys) \<le> sum_list xs"
      "sum_list (map2 (*) xs ys) \<le> sum_list ys"
    by simp_all
  from Cons.prems have x: "x = 0 \<or> x = 1" and y: "0 \<le> y" "y \<le> 1" by simp_all
  from x y IH show ?case by auto
qed

lemma dice_real_range:
  fixes l p :: "real list"
  assumes "length l = length p"
    and "\<forall>x\<in>set l. x = 0 \<or> x = 1"
    and "\<forall>x\<in>set p. 0 \<le> x \<and> x \<le> 1"
    and "0 < e"
  shows "0 \<le> 1 - (2 * sum_list (map2 (*) l p) + e) / (sum_list p + sum_list l + e)"
    and "1 - (2 * sum_list (map2 (*) l p) + e) / (sum_list p + sum_list l + e) \<le> 1"
    and "sum_list p + sum_list l + e \<noteq> 0"
proof -
  let ?c = "sum_list (map2 (*) l p)"
  from overlap_bounds [OF assms(1-3)]
  have c: "0 \<le> ?c" "?c \<le> sum_list l" "?c \<le> sum_list p" by simp_all
  have den: "0 < sum_list p + sum_list l + e" using c assms(4) by linarith
  have num: "0 < 2 * ?c + e" using c assms(4) by linarith
  have le: "2 * ?c + e \<le> sum_list p + sum_list l + e" using c by linarith
  show "sum_list p + sum_list l + e \<noteq> 0" using den by simp
  have "(2 * ?c + e) / (sum_list p + sum_list l + e) \<le> 1"
    using den le by (simp add: divide_le_eq)
  then show "0 \<le> 1 - (2 * ?c + e) / (sum_list p + sum_list l + e)" by simp
  have "0 < (2 * ?c + e) / (sum_list p + sum_list l + e)"
    using den num by simp
  then show "1 - (2 * ?c + e) / (sum_list p + sum_list l + e) \<le> 1" by simp
qed


lemma binary_list_is_map_Fin:
  assumes "\<forall>x\<in>set l. x = Fin 0 \<or> x = Fin 1"
  shows "l = map Fin (map fin_val l)" and "\<forall>x\<in>set (map fin_val l). x = 0 \<or> x = 1"
proof -
  from assms have "list_all isfinite l" by (auto simp: list_all_iff)
  then show "l = map Fin (map fin_val l)" by (rule finite_list_is_map_Fin)
  from assms show "\<forall>x\<in>set (map fin_val l). x = 0 \<or> x = 1" by auto
qed

lemma unit_list_is_map_Fin:
  assumes "\<forall>x\<in>set p. \<exists>r. x = Fin r \<and> 0 \<le> r \<and> r \<le> 1"
  shows "p = map Fin (map fin_val p)" and "\<forall>x\<in>set (map fin_val p). 0 \<le> x \<and> x \<le> 1"
proof -
  from assms have "list_all isfinite p" by (auto simp: list_all_iff)
  then show "p = map Fin (map fin_val p)" by (rule finite_list_is_map_Fin)
  from assms show "\<forall>x\<in>set (map fin_val p). 0 \<le> x \<and> x \<le> 1" by auto
qed

lemma diceLoss_spec_range:
  assumes len: "length l = length p"
    and lab: "\<forall>x\<in>set l. x = Fin 0 \<or> x = Fin 1"
    and pred: "\<forall>x\<in>set p. \<exists>r. x = Fin r \<and> 0 \<le> r \<and> r \<le> 1"
    and eps: "0 < e"
  shows "\<exists>r. diceLoss_spec l p (Fin e) = Fin r \<and> 0 \<le> r \<and> r \<le> 1"
proof -
  let ?l = "map fin_val l" and ?p = "map fin_val p"
  have l: "l = map Fin ?l" and lb: "\<forall>x\<in>set ?l. x = 0 \<or> x = 1"
    using binary_list_is_map_Fin [OF lab] by blast+
  have p: "p = map Fin ?p" and pb: "\<forall>x\<in>set ?p. 0 \<le> x \<and> x \<le> 1"
    using unit_list_is_map_Fin [OF pred] by blast+
  have len': "length ?l = length ?p" using len by simp
  note R = dice_real_range [OF len' lb pb eps]
  have "diceLoss_spec (map Fin ?l) (map Fin ?p) (Fin e) =
          Fin (1 - (2 * sum_list (map2 (*) ?l ?p) + e) / (sum_list ?p + sum_list ?l + e))"
    by (rule diceLoss_spec_Fin [OF R(3)])
  with l p R(1,2) show ?thesis by metis
qed

lemma binary_square_sum:
  fixes l :: "real list"
  assumes "\<forall>x\<in>set l. x = 0 \<or> x = 1"
  shows "sum_list (map2 (*) l l) = sum_list l"
  using assms by (induction l) auto

lemma diceLoss_spec_same:
  assumes lab: "\<forall>x\<in>set l. x = Fin 0 \<or> x = Fin 1" and eps: "0 < e"
  shows "diceLoss_spec l l (Fin e) = Fin 0"
proof -
  let ?l = "map fin_val l"
  have l: "l = map Fin ?l" and lb: "\<forall>x\<in>set ?l. x = 0 \<or> x = 1"
    using binary_list_is_map_Fin [OF lab] by blast+
  have ub: "\<forall>x\<in>set ?l. 0 \<le> x \<and> x \<le> 1" using lb by auto
  note R = dice_real_range [OF refl lb ub eps]
  have "diceLoss_spec (map Fin ?l) (map Fin ?l) (Fin e) =
          Fin (1 - (2 * sum_list (map2 (*) ?l ?l) + e) / (sum_list ?l + sum_list ?l + e))"
    by (rule diceLoss_spec_Fin [OF R(3)])
  also have "\<dots> = Fin 0"
    using R(3) by (simp add: binary_square_sum [OF lb])
  finally show ?thesis using l by simp
qed

lemma diceLoss_same_binary:
  assumes lab: "\<forall>s\<in>set label_t. \<forall>x\<in>set s. x = Fin 0 \<or> x = Fin 1" and eps: "0 < e"
  shows "diceLoss label_t label_t (Fin e) = Inr (replicate (length label_t) (Fin 0))"
proof -
  have "map2 (\<lambda>l p. diceLoss_spec l p (Fin e)) label_t label_t =
          map (\<lambda>l. diceLoss_spec l l (Fin e)) label_t"
    by (induction label_t) simp_all
  also have "\<dots> = map (\<lambda>_. Fin 0) label_t"
    using lab eps by (intro map_cong refl) (simp add: diceLoss_spec_same)
  also have "\<dots> = replicate (length label_t) (Fin 0)"
    by (simp add: map_replicate_const)
  finally show ?thesis
    by (simp add: diceLoss_eq_spec [OF same_shape_refl])
qed

text \<open>
  C2, as amended. For a label tensor with entries 0 or 1, a prediction tensor of the
  same shape with entries in \<open>[0, 1]\<close> and \<open>\<epsilon> > 0\<close>, every per-sample loss lies in
  \<open>[0, 1]\<close>. Where the prediction equals the label, every per-sample loss is exactly 0
  for every \<open>\<epsilon> > 0\<close>, so it tends to 0 as \<open>\<epsilon>\<close> tends to 0 from above.
\<close>

theorem diceLoss_range_and_limit:
  assumes shape: "same_shape label_t prediction_t"
    and lab: "\<forall>s\<in>set label_t. \<forall>x\<in>set s. x = Fin 0 \<or> x = Fin 1"
    and pred: "\<forall>s\<in>set prediction_t. \<forall>x\<in>set s. \<exists>r. x = Fin r \<and> 0 \<le> r \<and> r \<le> 1"
    and eps: "0 < e"
  shows "\<exists>losses. diceLoss label_t prediction_t (Fin e) = Inr losses \<and>
           length losses = length label_t \<and>
           (\<forall>x\<in>set losses. \<exists>r. x = Fin r \<and> 0 \<le> r \<and> r \<le> 1) \<and>
           (prediction_t = label_t \<longrightarrow>
              losses = replicate (length label_t) (Fin 0) \<and>
              (\<forall>i<length label_t.
                 ((\<lambda>e'. fin_val (projr (diceLoss label_t label_t (Fin e')) ! i)) \<longlongrightarrow> 0)
                   (at_right 0)))"
proof -
  let ?losses = "map2 (\<lambda>l p. diceLoss_spec l p (Fin e)) label_t prediction_t"
  have eq: "diceLoss label_t prediction_t (Fin e) = Inr ?losses"
    by (rule diceLoss_eq_spec [OF shape])
  have len: "length ?losses = length label_t"
    using same_shape_length [OF shape] by simp
  have range: "\<forall>x\<in>set ?losses. \<exists>r. x = Fin r \<and> 0 \<le> r \<and> r \<le> 1"
  proof
    fix x assume "x \<in> set ?losses"
    then obtain l p where lp: "(l, p) \<in> set (zip label_t prediction_t)"
      and x: "x = diceLoss_spec l p (Fin e)" by auto
    from lp have "l \<in> set label_t" "p \<in> set prediction_t"
      by (auto dest: set_zip_leftD set_zip_rightD)
    with lab pred have "\<forall>x\<in>set l. x = Fin 0 \<or> x = Fin 1"
      "\<forall>x\<in>set p. \<exists>r. x = Fin r \<and> 0 \<le> r \<and> r \<le> 1" by blast+
    from diceLoss_spec_range [OF same_shape_zip [OF shape lp] this eps] x
    show "\<exists>r. x = Fin r \<and> 0 \<le> r \<and> r \<le> 1" by simp
  qed
  have same: "prediction_t = label_t \<longrightarrow>
      ?losses = replicate (length label_t) (Fin 0) \<and>
      (\<forall>i<length label_t.
         ((\<lambda>e'. fin_val (projr (diceLoss label_t label_t (Fin e')) ! i)) \<longlongrightarrow> 0)
           (at_right 0))"
  proof (intro impI conjI allI)
    assume P: "prediction_t = label_t"
    from eq diceLoss_same_binary [OF lab eps] P
    show "?losses = replicate (length label_t) (Fin 0)" by simp
  next
    fix i assume "i < length label_t"
    then have "\<forall>e'>0. e' < 1 \<longrightarrow>
        fin_val (projr (diceLoss label_t label_t (Fin e')) ! i) = 0"
      by (simp add: diceLoss_same_binary [OF lab])
    then have "eventually (\<lambda>e'. fin_val (projr (diceLoss label_t label_t (Fin e')) ! i) = 0)
        (at_right 0)"
      unfolding eventually_at_right [OF zero_less_one] by (intro exI [of _ 1]) simp
    then show "((\<lambda>e'. fin_val (projr (diceLoss label_t label_t (Fin e')) ! i)) \<longlongrightarrow> 0)
        (at_right 0)"
      by (rule tendsto_eventually)
  qed
  from eq len range same show ?thesis by blast
qed

theorem diceLoss_range_and_limit_witness:
  "same_shape [[Fin 1, Fin 0]] [[Fin 1, Fin 0]] \<and> (0::real) < 1024 \<and>
   diceLoss [[Fin 1, Fin 0]] [[Fin 1, Fin 0]] (Fin 1024) = Inr [Fin 0] \<and>
   ((\<lambda>e'. fin_val (projr (diceLoss [[Fin 1, Fin 0]] [[Fin 1, Fin 0]] (Fin e')) ! 0))
      \<longlongrightarrow> 0) (at_right 0)"
proof -
  have h1: "same_shape [[Fin 1, Fin 0]] [[Fin 1, Fin 0]]"
    by (simp add: same_shape_def)
  have h2: "\<forall>s\<in>set [[Fin 1, Fin 0]]. \<forall>x\<in>set s. x = Fin 0 \<or> x = Fin 1"
    by simp
  have h3: "\<forall>s\<in>set [[Fin 1, Fin 0]]. \<forall>x\<in>set s. \<exists>r. x = Fin r \<and> 0 \<le> r \<and> r \<le> 1"
    by simp
  have h4: "(0::real) < 1024" by simp
  from diceLoss_range_and_limit [OF h1 h2 h3 h4] h1 h4 show ?thesis
    by auto
qed

text \<open>
  The interval \<open>(0, 1]\<close> of C2 as stated excludes 0, but a prediction equal to its
  binary label has loss 0 at the default \<open>\<epsilon>\<close>.
\<close>

theorem diceLoss_zero_counterexample:
  "same_shape [[Fin 1]] [[Fin 1]] \<and> diceLoss [[Fin 1]] [[Fin 1]] (Fin 1024) = Inr [Fin 0] \<and>
   \<not> (0::real) < 0"
  by (simp add: diceLoss_def same_shape_def sum_dim1_def tmul_def fsum_def fsub_def)

section \<open>Properties of logMetrics\<close>

lemma fsub_Fin [simp]: "fsub (Fin a) (Fin b) = Fin (a - b)"
  by (simp add: fsub_def)

lemma logMetrics_finite:
  assumes "all_isfinite m" and "METRICS_AFP_NDX < length m"
  shows "\<exists>d. logMetrics m = Inr (d, score_of d)"
  using assms by (simp add: logMetrics_def Let_def)

lemma wf_metrics_length: "wf_metrics n m \<Longrightarrow> METRICS_AFP_NDX < length m"
  by (simp add: wf_metrics_def ndx_defs)

text \<open>
  C9. The assertion of logMetrics fails exactly when the buffer holds a value that is
  not finite; on a buffer whose values are all finite, logMetrics returns a score.
\<close>

theorem logMetrics_asserts_finite:
  assumes "wf_metrics n m"
  shows "(logMetrics m = Inl AssertionError \<longleftrightarrow> (\<exists>row\<in>set m. \<exists>x\<in>set row. \<not> isfinite x)) \<and>
         ((\<forall>row\<in>set m. \<forall>x\<in>set row. isfinite x) \<longrightarrow> (\<exists>d score. logMetrics m = Inr (d, score)))"
proof -
  have fin: "all_isfinite m \<longleftrightarrow> (\<forall>row\<in>set m. \<forall>x\<in>set row. isfinite x)"
    by (simp add: all_isfinite_def list_all_iff)
  have len: "\<not> length m \<le> METRICS_AFP_NDX"
    using wf_metrics_length [OF assms] by simp
  show ?thesis
  proof (cases "all_isfinite m")
    case True
    with logMetrics_finite [OF True wf_metrics_length [OF assms]] fin show ?thesis
      by auto
  next
    case False
    then have "logMetrics m = Inl AssertionError"
      by (simp add: logMetrics_def)
    with False fin show ?thesis by auto
  qed
qed

theorem logMetrics_asserts_finite_witness:
  "wf_metrics 1 [[Fin 0], [PInf], [Fin 0], [Fin 0], [Fin 0], [Fin 0], [Fin 0], [Fin 0],
      [Fin 0], [Fin 0]] \<and>
   logMetrics [[Fin 0], [PInf], [Fin 0], [Fin 0], [Fin 0], [Fin 0], [Fin 0], [Fin 0],
      [Fin 0], [Fin 0]] = Inl AssertionError \<and>
   \<not> isfinite PInf"
proof -
  have h: "wf_metrics 1 [[Fin 0], [PInf], [Fin 0], [Fin 0], [Fin 0], [Fin 0], [Fin 0],
      [Fin 0], [Fin 0], [Fin 0]]"
    by (simp add: wf_metrics_def ndx_defs)
  from logMetrics_asserts_finite [OF h] h show ?thesis by simp
qed

text \<open>
  C1. The score that logMetrics returns is
  \<open>1 + f1 - 0.01 * recall - 0.001 * meanMalLoss - 0.0001 * meanAllLoss\<close>, where the four
  values are the entries \<open>pr/f1_score\<close>, \<open>pr/recall\<close>, \<open>loss/mal\<close> and \<open>loss/all\<close> of the
  dictionary that logMetrics derived from the buffer; where they are finite, the score
  is that real number.
\<close>

theorem logMetrics_score_formula:
  assumes "logMetrics m = Inr (d, score)"
  shows "score = fsub (fsub (fsub (fadd (Fin 1) (pr_f1_score d))
                                  (fmul (Fin 0.01) (pr_recall d)))
                            (fmul (Fin 0.001) (loss_mal d)))
                      (fmul (Fin 0.0001) (loss_all d)) \<and>
         (\<forall>f1 recall meanMalLoss meanAllLoss.
            pr_f1_score d = Fin f1 \<and> pr_recall d = Fin recall \<and>
            loss_mal d = Fin meanMalLoss \<and> loss_all d = Fin meanAllLoss \<longrightarrow>
            score = Fin (1 + f1 - 0.01 * recall - 0.001 * meanMalLoss - 0.0001 * meanAllLoss))"
proof -
  from assms have "score = score_of d"
    by (auto simp: logMetrics_def Let_def split: if_splits)
  then show ?thesis
    by (auto simp: score_of_def fsub_def fmul_commute)
qed

theorem logMetrics_score_formula_witness:
  "logMetrics [[Fin 1, Fin 0], [Fin (1/2), Fin (1/4)], [Fin (1/8), Fin 0], [Fin 0, Fin 0],
      [Fin 3, Fin 0], [Fin 1, Fin 0], [Fin 0, Fin 0], [Fin 3, Fin 1], [Fin 1, Fin 0],
      [Fin 0, Fin 4]] =
     Inr (\<lparr>loss_all = Fin (3/8), loss_mal = Fin (1/8), correct_mal = Fin 75,
           correct_all = Fin 80, pr_precision = Fin (1/2), pr_recall = Fin (4/5),
           pr_f1_score = Fin (8/13)\<rparr>,
          Fin (1 + 8/13 - 0.01 * (4/5) - 0.001 * (1/8) - 0.0001 * (3/8)))"
proof -
  have e: "logMetrics [[Fin 1, Fin 0], [Fin (1/2), Fin (1/4)], [Fin (1/8), Fin 0],
      [Fin 0, Fin 0], [Fin 3, Fin 0], [Fin 1, Fin 0], [Fin 0, Fin 0], [Fin 3, Fin 1],
      [Fin 1, Fin 0], [Fin 0, Fin 4]] =
     Inr (\<lparr>loss_all = Fin (3/8), loss_mal = Fin (1/8), correct_mal = Fin 75,
           correct_all = Fin 80, pr_precision = Fin (1/2), pr_recall = Fin (4/5),
           pr_f1_score = Fin (8/13)\<rparr>,
          score_of \<lparr>loss_all = Fin (3/8), loss_mal = Fin (1/8), correct_mal = Fin 75,
           correct_all = Fin 80, pr_precision = Fin (1/2), pr_recall = Fin (4/5),
           pr_f1_score = Fin (8/13)\<rparr>)"
    by (simp add: logMetrics_def Let_def all_isfinite_def ndx_defs fsum_def mean_def
        masked_def feq_def or_1_def)
  from logMetrics_score_formula [OF e] e show ?thesis by (simp add: score_of_def)
qed

lemma score_of_Fin:
  assumes "pr_f1_score d = Fin f" "pr_recall d = Fin r" "loss_mal d = Fin b" "loss_all d = Fin a"
  shows "score_of d = Fin (1 + f - r * 0.01 - b * 0.001 - a * 0.0001)"
  using assms by (simp add: score_of_def)

text \<open>
  C7. On finite values, the score rises strictly with F1 when recall and the two mean
  losses are held fixed, and falls strictly with each of recall, mean malignant loss and
  mean overall loss when the other three are held fixed.
\<close>

theorem score_of_monotone:
  assumes "pr_f1_score d = Fin f" and "pr_recall d = Fin r"
    and "loss_mal d = Fin b" and "loss_all d = Fin a"
  shows "(f < f' \<longrightarrow> flt (score_of d) (score_of (d\<lparr>pr_f1_score := Fin f'\<rparr>))) \<and>
         (r < r' \<longrightarrow> flt (score_of (d\<lparr>pr_recall := Fin r'\<rparr>)) (score_of d)) \<and>
         (b < b' \<longrightarrow> flt (score_of (d\<lparr>loss_mal := Fin b'\<rparr>)) (score_of d)) \<and>
         (a < a' \<longrightarrow> flt (score_of (d\<lparr>loss_all := Fin a'\<rparr>)) (score_of d))"
  using assms by (simp add: score_of_def)

theorem score_of_monotone_witness:
  "flt (score_of \<lparr>loss_all = Fin (1/4), loss_mal = Fin (1/2), correct_mal = NaN,
          correct_all = NaN, pr_precision = Fin 1, pr_recall = Fin (1/2),
          pr_f1_score = Fin (2/3)\<rparr>)
       (score_of \<lparr>loss_all = Fin (1/4), loss_mal = Fin (1/2), correct_mal = NaN,
          correct_all = NaN, pr_precision = Fin 1, pr_recall = Fin (1/2),
          pr_f1_score = Fin (3/4)\<rparr>) \<and>
   flt (score_of \<lparr>loss_all = Fin (1/4), loss_mal = Fin (1/2), correct_mal = NaN,
          correct_all = NaN, pr_precision = Fin 1, pr_recall = Fin (3/4),
          pr_f1_score = Fin (2/3)\<rparr>)
       (score_of \<lparr>loss_all = Fin (1/4), loss_mal = Fin (1/2), correct_mal = NaN,
          correct_all = NaN, pr_precision = Fin 1, pr_recall = Fin (1/2),
          pr_f1_score = Fin (2/3)\<rparr>) \<and>
   flt (score_of \<lparr>loss_all = Fin (1/4), loss_mal = Fin 1, correct_mal = NaN,
          correct_all = NaN, pr_precision = Fin 1, pr_recall = Fin (1/2),
          pr_f1_score = Fin (2/3)\<rparr>)
       (score_of \<lparr>loss_all = Fin (1/4), loss_mal = Fin (1/2), correct_mal = NaN,
          correct_all = NaN, pr_precision = Fin 1, pr_recall = Fin (1/2),
          pr_f1_score = Fin (2/3)\<rparr>) \<and>
   flt (score_of \<lparr>loss_all = Fin 1, loss_mal = Fin (1/2), correct_mal = NaN,
          correct_all = NaN, pr_precision = Fin 1, pr_recall = Fin (1/2),
          pr_f1_score = Fin (2/3)\<rparr>)
       (score_of \<lparr>loss_all = Fin (1/4), loss_mal = Fin (1/2), correct_mal = NaN,
          correct_all = NaN, pr_precision = Fin 1, pr_recall = Fin (1/2),
          pr_f1_score = Fin (2/3)\<rparr>)"
  using score_of_monotone [of "\<lparr>loss_all = Fin (1/4), loss_mal = Fin (1/2), correct_mal = NaN,
          correct_all = NaN, pr_precision = Fin 1, pr_recall = Fin (1/2),
          pr_f1_score = Fin (2/3)\<rparr>" "2/3" "1/2" "1/2" "1/4" "3/4" "3/4" 1 1]
  by simp

lemma or_1_Fin: "or_1 (Fin x) = Fin (if x = 0 then 1 else x)"
  by (simp add: or_1_def)

lemma all_isfinite_row:
  assumes "all_isfinite m" and "i < length m"
  shows "m ! i = map Fin (map fin_val (m ! i))"
proof -
  from assms have "list_all isfinite (m ! i)"
    by (simp add: all_isfinite_def list_all_length)
  then show ?thesis by (rule finite_list_is_map_Fin)
qed

lemma fsum_row:
  assumes "all_isfinite m" and "i < length m"
  shows "fsum (m ! i) = Fin (sum_list (map fin_val (m ! i)))"
  using all_isfinite_row [OF assms] fsum_Fin [of "map fin_val (m ! i)"] by simp

text \<open>The dictionary of logMetrics on a finite buffer, with the sums as real numbers.\<close>

lemma logMetrics_precision_recall:
  assumes fin: "all_isfinite m" and len: "METRICS_AFP_NDX < length m"
    and tp: "tp = sum_list (map fin_val (m ! METRICS_ATP_NDX))"
    and fn: "fn = sum_list (map fin_val (m ! METRICS_AFN_NDX))"
    and fp: "fp = sum_list (map fin_val (m ! METRICS_AFP_NDX))"
    and p: "p = tp / (if tp + fp = 0 then 1 else tp + fp)"
    and r: "r = tp / (if tp + fn = 0 then 1 else tp + fn)"
  shows "\<exists>d. logMetrics m = Inr (d, score_of d) \<and>
           pr_precision d = Fin p \<and> pr_recall d = Fin r \<and>
           pr_f1_score d = Fin (2 * (p * r) / (if p + r = 0 then 1 else p + r))"
proof -
  from len have l: "METRICS_ATP_NDX < length m" "METRICS_AFN_NDX < length m"
    "METRICS_AFP_NDX < length m" "\<not> length m \<le> METRICS_AFP_NDX"
    by (simp_all add: ndx_defs)
  have s: "fsum (m ! METRICS_ATP_NDX) = Fin tp" "fsum (m ! METRICS_AFN_NDX) = Fin fn"
    "fsum (m ! METRICS_AFP_NDX) = Fin fp"
    using fsum_row [OF fin] l tp fn fp by simp_all
  show ?thesis
    using fin l s by (simp add: logMetrics_def Let_def or_1_Fin p r)
qed


text \<open>
  C8. On a finite buffer, precision, recall and F1 are finite numbers. A denominator
  that is zero is replaced by 1: for precision the denominator is ATP + AFP, for recall
  ATP + AFN, for F1 precision + recall. In particular precision is exactly 0 when the
  summed ATP and AFP are both 0.
\<close>

theorem logMetrics_floor_policy:
  assumes wf: "wf_metrics n m" and fin: "\<forall>row\<in>set m. \<forall>x\<in>set row. isfinite x"
  shows "\<exists>d score. logMetrics m = Inr (d, score) \<and>
           isfinite (pr_precision d) \<and> isfinite (pr_recall d) \<and> isfinite (pr_f1_score d) \<and>
           (fsum (m ! METRICS_ATP_NDX) = Fin 0 \<and> fsum (m ! METRICS_AFP_NDX) = Fin 0 \<longrightarrow>
              pr_precision d = Fin 0) \<and>
           (fadd (fsum (m ! METRICS_ATP_NDX)) (fsum (m ! METRICS_AFP_NDX)) = Fin 0 \<longrightarrow>
              pr_precision d = fdiv (fsum (m ! METRICS_ATP_NDX)) (Fin 1)) \<and>
           (fadd (fsum (m ! METRICS_ATP_NDX)) (fsum (m ! METRICS_AFN_NDX)) = Fin 0 \<longrightarrow>
              pr_recall d = fdiv (fsum (m ! METRICS_ATP_NDX)) (Fin 1)) \<and>
           (fadd (pr_precision d) (pr_recall d) = Fin 0 \<longrightarrow>
              pr_f1_score d =
                fdiv (fmul (Fin 2) (fmul (pr_precision d) (pr_recall d))) (Fin 1))"
proof -
  have f: "all_isfinite m"
    using fin by (simp add: all_isfinite_def list_all_iff)
  have len: "METRICS_AFP_NDX < length m"
    by (rule wf_metrics_length [OF wf])
  then have l: "METRICS_ATP_NDX < length m" "METRICS_AFN_NDX < length m"
    by (simp_all add: ndx_defs)
  define tp where "tp = sum_list (map fin_val (m ! METRICS_ATP_NDX))"
  define fn where "fn = sum_list (map fin_val (m ! METRICS_AFN_NDX))"
  define fp where "fp = sum_list (map fin_val (m ! METRICS_AFP_NDX))"
  define p where "p = tp / (if tp + fp = 0 then 1 else tp + fp)"
  define r where "r = tp / (if tp + fn = 0 then 1 else tp + fn)"
  have s: "fsum (m ! METRICS_ATP_NDX) = Fin tp" "fsum (m ! METRICS_AFN_NDX) = Fin fn"
    "fsum (m ! METRICS_AFP_NDX) = Fin fp"
    using fsum_row [OF f] l len by (simp_all add: tp_def fn_def fp_def)
  from logMetrics_precision_recall [OF f len tp_def fn_def fp_def p_def r_def]
  obtain d where d: "logMetrics m = Inr (d, score_of d)"
    "pr_precision d = Fin p" "pr_recall d = Fin r"
    "pr_f1_score d = Fin (2 * (p * r) / (if p + r = 0 then 1 else p + r))"
    by blast
  have "isfinite (pr_precision d) \<and> isfinite (pr_recall d) \<and> isfinite (pr_f1_score d)"
    using d by simp
  moreover have "fsum (m ! METRICS_ATP_NDX) = Fin 0 \<and> fsum (m ! METRICS_AFP_NDX) = Fin 0
      \<longrightarrow> pr_precision d = Fin 0"
    using d s by (simp add: p_def)
  moreover have "fadd (fsum (m ! METRICS_ATP_NDX)) (fsum (m ! METRICS_AFP_NDX)) = Fin 0
      \<longrightarrow> pr_precision d = fdiv (fsum (m ! METRICS_ATP_NDX)) (Fin 1)"
    using d s by (simp add: p_def)
  moreover have "fadd (fsum (m ! METRICS_ATP_NDX)) (fsum (m ! METRICS_AFN_NDX)) = Fin 0
      \<longrightarrow> pr_recall d = fdiv (fsum (m ! METRICS_ATP_NDX)) (Fin 1)"
    using d s by (simp add: r_def)
  moreover have "fadd (pr_precision d) (pr_recall d) = Fin 0 \<longrightarrow>
      pr_f1_score d = fdiv (fmul (Fin 2) (fmul (pr_precision d) (pr_recall d))) (Fin 1)"
    using d by simp
  ultimately show ?thesis using d(1) by blast
qed

theorem logMetrics_floor_policy_witness:
  "wf_metrics 2 [[Fin 0, Fin 0], [Fin (1/2), Fin (1/4)], [Fin 0, Fin 0], [Fin 0, Fin 0],
      [Fin 0, Fin 0], [Fin 0, Fin 0], [Fin 0, Fin 0], [Fin 0, Fin 0], [Fin 2, Fin 1],
      [Fin 0, Fin 0]] \<and>
   fsum [Fin 0, Fin 0] = Fin 0 \<and>
   (\<exists>d score. logMetrics [[Fin 0, Fin 0], [Fin (1/2), Fin (1/4)], [Fin 0, Fin 0],
      [Fin 0, Fin 0], [Fin 0, Fin 0], [Fin 0, Fin 0], [Fin 0, Fin 0], [Fin 0, Fin 0],
      [Fin 2, Fin 1], [Fin 0, Fin 0]] = Inr (d, score) \<and> pr_precision d = Fin 0)"
proof -
  have h1: "wf_metrics 2 [[Fin 0, Fin 0], [Fin (1/2), Fin (1/4)], [Fin 0, Fin 0],
      [Fin 0, Fin 0], [Fin 0, Fin 0], [Fin 0, Fin 0], [Fin 0, Fin 0], [Fin 0, Fin 0],
      [Fin 2, Fin 1], [Fin 0, Fin 0]]"
    by (simp add: wf_metrics_def ndx_defs)
  have h2: "\<forall>row\<in>set [[Fin 0, Fin 0], [Fin (1/2), Fin (1/4)], [Fin 0, Fin 0],
      [Fin 0, Fin 0], [Fin 0, Fin 0], [Fin 0, Fin 0], [Fin 0, Fin 0], [Fin 0, Fin 0],
      [Fin 2, Fin 1], [Fin 0, Fin 0]]. \<forall>x\<in>set row. isfinite x"
    by simp
  have h3: "fsum [Fin 0, Fin 0] = Fin 0"
    by (simp add: fsum_def)
  from logMetrics_floor_policy [OF h1 h2] h1 h3 show ?thesis
    by (auto simp: ndx_defs)
qed

lemma scenario_A_buffer:
  "doTesting 4 4
     [\<lparr>label_tensor = [[Fin 0, Fin 0], [Fin 0, Fin 0], [Fin 0, Fin 0], [Fin 0, Fin 0]],
       label_list = [0, 0, 0, 0],
       ben_tensor = [[Fin 0, Fin 0], [Fin 0, Fin 0], [Fin 0, Fin 0], [Fin 0, Fin 0]],
       mal_tensor = [[Fin 0, Fin 0], [Fin 0, Fin 0], [Fin 0, Fin 0], [Fin 0, Fin 0]],
       prediction = [[Fin 0, Fin 0], [Fin 0, Fin 0], [Fin 0, Fin 0], [Fin 0, Fin 0]]\<rparr>] =
   Inr \<lparr>vals = [[Fin 0, Fin 0, Fin 0, Fin 0], [Fin 0, Fin 0, Fin 0, Fin 0],
               [Fin 0, Fin 0, Fin 0, Fin 0], [Fin 0, Fin 0, Fin 0, Fin 0],
               [Fin 0, Fin 0, Fin 0, Fin 0], [Fin 0, Fin 0, Fin 0, Fin 0],
               [Fin 0, Fin 0, Fin 0, Fin 0], [Fin 0, Fin 0, Fin 0, Fin 0],
               [Fin 0, Fin 0, Fin 0, Fin 0], [Fin 0, Fin 0, Fin 0, Fin 0]],
        writes = [[1, 1, 1, 1], [1, 1, 1, 1], [1, 1, 1, 1], [0, 0, 0, 0], [1, 1, 1, 1],
                  [1, 1, 1, 1], [0, 0, 0, 0], [1, 1, 1, 1], [1, 1, 1, 1], [1, 1, 1, 1]]\<rparr>"
  by code_simp

lemma scenario_A_metrics:
  "logMetrics [[Fin 0, Fin 0, Fin 0, Fin 0], [Fin 0, Fin 0, Fin 0, Fin 0],
               [Fin 0, Fin 0, Fin 0, Fin 0], [Fin 0, Fin 0, Fin 0, Fin 0],
               [Fin 0, Fin 0, Fin 0, Fin 0], [Fin 0, Fin 0, Fin 0, Fin 0],
               [Fin 0, Fin 0, Fin 0, Fin 0], [Fin 0, Fin 0, Fin 0, Fin 0],
               [Fin 0, Fin 0, Fin 0, Fin 0], [Fin 0, Fin 0, Fin 0, Fin 0]] =
   Inr (\<lparr>loss_all = Fin 0, loss_mal = Fin 0, correct_mal = NaN, correct_all = NaN,
         pr_precision = Fin 0, pr_recall = Fin 0, pr_f1_score = Fin 0\<rparr>, Fin 1)"
  by (simp add: logMetrics_def Let_def all_isfinite_def ndx_defs fsum_def mean_def
        masked_def feq_def or_1_def score_of_def)

text \<open>
  On every finite buffer whose summed ATP and AFN are 0, the entry \<open>correct/all\<close> is
  \<open>0/0 * 100\<close>, which is NaN: its denominator has no \<^verbatim>\<open>or 1\<close>, unlike the denominator
  of recall, which is the same sum.
\<close>

lemma logMetrics_correct_all_nan:
  assumes "all_isfinite m" and "METRICS_AFP_NDX < length m"
    and "fsum (m ! METRICS_ATP_NDX) = Fin 0" and "fsum (m ! METRICS_AFN_NDX) = Fin 0"
  shows "\<exists>d score. logMetrics m = Inr (d, score) \<and> correct_all d = NaN \<and>
           pr_recall d = Fin 0"
proof -
  from assms(2) have l: "METRICS_ATP_NDX < length m" "METRICS_AFN_NDX < length m"
    "\<not> length m \<le> METRICS_AFP_NDX"
    by (simp_all add: ndx_defs)
  show ?thesis
    using assms(1,3,4) l by (simp add: logMetrics_def Let_def or_1_def)
qed

text \<open>
  C3. Scenario A, end to end: one batch of four samples with label 0, empty masks
  and an all-zero prediction. doTesting fills the buffer with zeros, and logMetrics
  returns precision, recall and F1 equal to 0 and the score 1, but \<open>correct/all\<close> (and
  \<open>correct/mal\<close>) is NaN, not 0.
\<close>

theorem scenario_A_correct_all_nan:
  "doTesting 4 4
     [\<lparr>label_tensor = [[Fin 0, Fin 0], [Fin 0, Fin 0], [Fin 0, Fin 0], [Fin 0, Fin 0]],
       label_list = [0, 0, 0, 0],
       ben_tensor = [[Fin 0, Fin 0], [Fin 0, Fin 0], [Fin 0, Fin 0], [Fin 0, Fin 0]],
       mal_tensor = [[Fin 0, Fin 0], [Fin 0, Fin 0], [Fin 0, Fin 0], [Fin 0, Fin 0]],
       prediction = [[Fin 0, Fin 0], [Fin 0, Fin 0], [Fin 0, Fin 0], [Fin 0, Fin 0]]\<rparr>] =
   Inr \<lparr>vals = [[Fin 0, Fin 0, Fin 0, Fin 0], [Fin 0, Fin 0, Fin 0, Fin 0],
               [Fin 0, Fin 0, Fin 0, Fin 0], [Fin 0, Fin 0, Fin 0, Fin 0],
               [Fin 0, Fin 0, Fin 0, Fin 0], [Fin 0, Fin 0, Fin 0, Fin 0],
               [Fin 0, Fin 0, Fin 0, Fin 0], [Fin 0, Fin 0, Fin 0, Fin 0],
               [Fin 0, Fin 0, Fin 0, Fin 0], [Fin 0, Fin 0, Fin 0, Fin 0]],
        writes = [[1, 1, 1, 1], [1, 1, 1, 1], [1, 1, 1, 1], [0, 0, 0, 0], [1, 1, 1, 1],
                  [1, 1, 1, 1], [0, 0, 0, 0], [1, 1, 1, 1], [1, 1, 1, 1], [1, 1, 1, 1]]\<rparr> \<and>
   logMetrics [[Fin 0, Fin 0, Fin 0, Fin 0], [Fin 0, Fin 0, Fin 0, Fin 0],
               [Fin 0, Fin 0, Fin 0, Fin 0], [Fin 0, Fin 0, Fin 0, Fin 0],
               [Fin 0, Fin 0, Fin 0, Fin 0], [Fin 0, Fin 0, Fin 0, Fin 0],
               [Fin 0, Fin 0, Fin 0, Fin 0], [Fin 0, Fin 0, Fin 0, Fin 0],
               [Fin 0, Fin 0, Fin 0, Fin 0], [Fin 0, Fin 0, Fin 0, Fin 0]] =
   Inr (\<lparr>loss_all = Fin 0, loss_mal = Fin 0, correct_mal = NaN, correct_all = NaN,
         pr_precision = Fin 0, pr_recall = Fin 0, pr_f1_score = Fin 0\<rparr>, Fin 1)"
  using scenario_A_buffer scenario_A_metrics by (rule conjI)

section \<open>The range of the score\<close>

lemma mean_Fin:
  "xs \<noteq> [] \<Longrightarrow> mean (map Fin xs) = Fin (sum_list xs / real (length xs))"
  by (simp add: mean_def fsum_Fin)

lemma mean_Nil: "mean [] = NaN"
  by (simp add: mean_def fsum_Nil)

lemma sum_list_unit_bounds:
  fixes xs :: "real list"
  assumes "\<forall>x\<in>set xs. 0 \<le> x \<and> x \<le> 1"
  shows "0 \<le> sum_list xs \<and> sum_list xs \<le> real (length xs)"
  using assms by (induction xs) auto

lemma mean_unit_bounds:
  fixes xs :: "real list"
  assumes "\<forall>x\<in>set xs. 0 \<le> x \<and> x \<le> 1" and "xs \<noteq> []"
  shows "0 \<le> sum_list xs / real (length xs) \<and> sum_list xs / real (length xs) \<le> 1"
proof -
  have "0 < real (length xs)" using assms(2) by simp
  with sum_list_unit_bounds [OF assms(1)] show ?thesis
    by (simp add: divide_le_eq)
qed

lemma masked_map: "masked msk (map f xs) = map f (masked msk xs)"
proof (induction xs arbitrary: msk)
  case Nil
  then show ?case by (simp add: masked_def)
next
  case (Cons x xs)
  show ?case
  proof (cases msk)
    case Nil
    then show ?thesis by (simp add: masked_def)
  next
    case (Cons b bs)
    with Cons.IH [of bs] show ?thesis by (simp add: masked_def)
  qed
qed

lemma set_masked: "set (masked msk xs) \<subseteq> set xs"
  by (auto simp: masked_def dest: set_zip_rightD)

lemma nan_to_num_mean_unit:
  fixes xs :: "real list"
  assumes "\<forall>x\<in>set xs. 0 \<le> x \<and> x \<le> 1"
  shows "\<exists>b. nan_to_num (mean (map Fin xs)) = Fin b \<and> 0 \<le> b \<and> b \<le> 1"
proof (cases "xs = []")
  case True
  then show ?thesis by (simp add: mean_Nil)
next
  case False
  with mean_unit_bounds [OF assms False] show ?thesis
    by (simp add: mean_Fin)
qed

lemma rate_bounds:
  fixes tp other :: real
  assumes "0 \<le> tp" and "0 \<le> other"
  shows "0 \<le> tp / (if tp + other = 0 then 1 else tp + other) \<and>
         tp / (if tp + other = 0 then 1 else tp + other) \<le> 1"
proof (cases "tp + other = 0")
  case True
  with assms have "tp = 0" by linarith
  then show ?thesis by simp
next
  case False
  with assms have "0 < tp + other" by linarith
  with assms False show ?thesis by (simp add: divide_le_eq)
qed

lemma f1_nonneg:
  fixes p r :: real
  assumes "0 \<le> p" and "0 \<le> r"
  shows "0 \<le> 2 * (p * r) / (if p + r = 0 then 1 else p + r)"
proof -
  have "0 \<le> (if p + r = 0 then 1 else p + r)" using assms by simp
  moreover have "0 \<le> 2 * (p * r)" using assms by simp
  ultimately show ?thesis by (rule divide_nonneg_nonneg [rotated])
qed

lemma sum_list_nonneg_real:
  fixes xs :: "real list"
  shows "\<forall>x\<in>set xs. 0 \<le> x \<Longrightarrow> 0 \<le> sum_list xs"
  by (induction xs) auto

text \<open>The entries of the dictionary that the score reads, on a finite buffer.\<close>

lemma logMetrics_dict:
  assumes fin: "all_isfinite m" and len: "METRICS_AFP_NDX < length m"
    and tp: "tp = sum_list (map fin_val (m ! METRICS_ATP_NDX))"
    and fn: "fn = sum_list (map fin_val (m ! METRICS_AFN_NDX))"
    and fp: "fp = sum_list (map fin_val (m ! METRICS_AFP_NDX))"
    and p: "p = tp / (if tp + fp = 0 then 1 else tp + fp)"
    and r: "r = tp / (if tp + fn = 0 then 1 else tp + fn)"
  shows "\<exists>d. logMetrics m = Inr (d, score_of d) \<and>
           pr_recall d = Fin r \<and>
           pr_f1_score d = Fin (2 * (p * r) / (if p + r = 0 then 1 else p + r)) \<and>
           loss_all d = mean (m ! METRICS_LOSS_NDX) \<and>
           loss_mal d =
             nan_to_num (mean (masked
               (map (\<lambda>l. feq l (Fin 1) \<or> feq l (Fin 3)) (m ! METRICS_LABEL_NDX))
               (m ! METRICS_MAL_LOSS_NDX)))"
proof -
  from len have l: "METRICS_ATP_NDX < length m" "METRICS_AFN_NDX < length m"
    "METRICS_AFP_NDX < length m" "\<not> length m \<le> METRICS_AFP_NDX"
    by (simp_all add: ndx_defs)
  have s: "fsum (m ! METRICS_ATP_NDX) = Fin tp" "fsum (m ! METRICS_AFN_NDX) = Fin fn"
    "fsum (m ! METRICS_AFP_NDX) = Fin fp"
    using fsum_row [OF fin] l tp fn fp by simp_all
  show ?thesis
    using fin l s by (simp add: logMetrics_def Let_def or_1_Fin p r)
qed

lemma logMetrics_score_bounds:
  assumes wf: "wf_metrics n m" and n: "0 < n"
    and fin: "\<forall>row\<in>set m. \<forall>x\<in>set row. isfinite x"
    and loss: "\<forall>x\<in>set (m ! METRICS_LOSS_NDX). 0 \<le> fin_val x \<and> fin_val x \<le> 1"
    and mal_loss: "\<forall>x\<in>set (m ! METRICS_MAL_LOSS_NDX). 0 \<le> fin_val x \<and> fin_val x \<le> 1"
    and atp: "\<forall>x\<in>set (m ! METRICS_ATP_NDX). 0 \<le> fin_val x"
    and afn: "\<forall>x\<in>set (m ! METRICS_AFN_NDX). 0 \<le> fin_val x"
    and afp: "\<forall>x\<in>set (m ! METRICS_AFP_NDX). 0 \<le> fin_val x"
  shows "\<exists>d s. logMetrics m = Inr (d, Fin s) \<and> 1 - 0.01 - 0.001 - 0.0001 \<le> s"
proof -
  have f: "all_isfinite m"
    using fin by (simp add: all_isfinite_def list_all_iff)
  have len: "METRICS_AFP_NDX < length m"
    by (rule wf_metrics_length [OF wf])
  then have l: "METRICS_LOSS_NDX < length m" "METRICS_MAL_LOSS_NDX < length m"
    by (simp_all add: ndx_defs)
  define tp where "tp = sum_list (map fin_val (m ! METRICS_ATP_NDX))"
  define fn where "fn = sum_list (map fin_val (m ! METRICS_AFN_NDX))"
  define fp where "fp = sum_list (map fin_val (m ! METRICS_AFP_NDX))"
  define p where "p = tp / (if tp + fp = 0 then 1 else tp + fp)"
  define r where "r = tp / (if tp + fn = 0 then 1 else tp + fn)"
  define msk where
    "msk = map (\<lambda>l. feq l (Fin 1) \<or> feq l (Fin 3)) (m ! METRICS_LABEL_NDX)"
  from logMetrics_dict [OF f len tp_def fn_def fp_def p_def r_def]
  obtain d where d: "logMetrics m = Inr (d, score_of d)"
    "pr_recall d = Fin r"
    "pr_f1_score d = Fin (2 * (p * r) / (if p + r = 0 then 1 else p + r))"
    "loss_all d = mean (m ! METRICS_LOSS_NDX)"
    "loss_mal d = nan_to_num (mean (masked msk (m ! METRICS_MAL_LOSS_NDX)))"
    unfolding msk_def by blast
  have nn: "0 \<le> tp" "0 \<le> fn" "0 \<le> fp"
    using atp afn afp by (simp_all add: tp_def fn_def fp_def sum_list_nonneg_real)
  have pb: "0 \<le> p" and rb: "0 \<le> r \<and> r \<le> 1"
    using rate_bounds [OF nn(1) nn(3)] rate_bounds [OF nn(1) nn(2)]
    by (simp_all add: p_def r_def)
  have fb: "0 \<le> 2 * (p * r) / (if p + r = 0 then 1 else p + r)"
    using f1_nonneg pb rb by blast
  \<comment> \<open>the mean of the overall loss row\<close>
  let ?ls = "map fin_val (m ! METRICS_LOSS_NDX)"
  have row1: "m ! METRICS_LOSS_NDX = map Fin ?ls"
    by (rule all_isfinite_row [OF f l(1)])
  have "length (m ! METRICS_LOSS_NDX) = n"
    using wf l(1) by (simp add: wf_metrics_def list_all_length)
  with n have ne: "?ls \<noteq> []" by auto
  have lsb: "\<forall>x\<in>set ?ls. 0 \<le> x \<and> x \<le> 1" using loss by simp
  obtain a where a: "loss_all d = Fin a" "0 \<le> a" "a \<le> 1"
    using d(4) row1 mean_Fin [OF ne] mean_unit_bounds [OF lsb ne] by metis
  \<comment> \<open>the mean of the malignant loss row over the malignant samples\<close>
  let ?ms = "map fin_val (m ! METRICS_MAL_LOSS_NDX)"
  have row2: "m ! METRICS_MAL_LOSS_NDX = map Fin ?ms"
    by (rule all_isfinite_row [OF f l(2)])
  have "\<forall>x\<in>set (masked msk ?ms). 0 \<le> x \<and> x \<le> 1"
    using mal_loss set_masked [of msk ?ms] by auto
  from nan_to_num_mean_unit [OF this]
  obtain b where b: "nan_to_num (mean (map Fin (masked msk ?ms))) = Fin b" "0 \<le> b" "b \<le> 1"
    by blast
  have "masked msk (m ! METRICS_MAL_LOSS_NDX) = map Fin (masked msk ?ms)"
    using row2 masked_map [of msk Fin ?ms] by simp
  with b d(5) have b': "loss_mal d = Fin b" by simp
  have "score_of d =
      Fin (1 + 2 * (p * r) / (if p + r = 0 then 1 else p + r) - r * 0.01 - b * 0.001
           - a * 0.0001)"
    by (rule score_of_Fin [OF d(3) d(2) b' a(1)])
  moreover have "1 - 0.01 - 0.001 - 0.0001 \<le>
      1 + 2 * (p * r) / (if p + r = 0 then 1 else p + r) - r * 0.01 - b * 0.001 - a * 0.0001"
  proof -
    define F where "F = 2 * (p * r) / (if p + r = 0 then 1 else p + r)"
    have "0 \<le> F" using fb by (simp add: F_def)
    then have "1 - 0.01 - 0.001 - 0.0001 \<le> 1 + F - r * 0.01 - b * 0.001 - a * 0.0001"
      using rb a(2,3) b(2,3) by simp
    then show ?thesis by (simp only: F_def)
  qed
  ultimately show ?thesis using d(1) by metis
qed

section \<open>Properties of saveModel and main\<close>

lemma str_nat_digits: "set (str_nat n) \<subseteq> set ''0123456789''"
proof (induction n rule: str_nat.induct)
  case (1 n)
  have d: "''0123456789'' ! k \<in> set ''0123456789''" if "k < 10" for k
    using that by (intro nth_mem) simp
  show ?case
  proof (cases "n < 10")
    case True
    then show ?thesis
      using d [of n] by (subst str_nat.simps) simp
  next
    case False
    have "n mod 10 < 10" by simp
    with False 1 d [of "n mod 10"] show ?thesis
      by (subst str_nat.simps) simp
  qed
qed

lemma str_nat_not_best: "str_nat n \<noteq> ''best''"
proof
  assume "str_nat n = ''best''"
  then have "CHR ''b'' \<in> set (str_nat n)" by simp
  with str_nat_digits [of n] show False by auto
qed

lemma file_path_eq: "file_path self t a = file_path self t b \<longleftrightarrow> a = b"
  by (simp add: file_path_def)

lemma saveModel_best_file:
  "files (saveModel self t k isBest) (file_path self t ''best'') =
     (if isBest
      then Some \<lparr>model_state = model_dict self, model_name = ''UNetWrapper'',
                 optimizer_state = optimizer_dict self, optimizer_name = ''SGD'',
                 epoch = k,
                 saved_totalTrainingSamples_count = totalTrainingSamples_count self\<rparr>
      else files self (file_path self t ''best''))"
  using str_nat_not_best [of "totalTrainingSamples_count self"]
  by (auto simp: saveModel_def Let_def file_path_eq)

lemma main_loop_Cons:
  assumes "logMetrics (trainingMetrics inp) = Inr r"
    and "logMetrics (testingMetrics inp) = Inr (d, score)"
  shows "main_loop best k self (inp # rest) =
           main_loop (py_max score best) (Suc k)
             (saveModel
                (self\<lparr>totalTrainingSamples_count :=
                         totalTrainingSamples_count self + size1 (trainingMetrics inp),
                       model_dict := trained_model inp,
                       optimizer_dict := trained_optimizer inp\<rparr>)
                ''seg'' k (feq score (py_max score best)))
             rest"
  using assms by (simp add: bind_err_def Let_def)

lemma main_loop_Cons_Inr:
  assumes "main_loop best k self (inp # rest) = Inr res"
  shows "\<exists>r d score. logMetrics (trainingMetrics inp) = Inr r \<and>
           logMetrics (testingMetrics inp) = Inr (d, score)"
  using assms by (auto simp: bind_err_def Let_def split: sum.splits)

lemma main_loop_snoc:
  assumes "main_loop b k self pre = Inr (best, st)"
    and "logMetrics (trainingMetrics inp) = Inr r"
    and "logMetrics (testingMetrics inp) = Inr (d, score)"
  shows "main_loop b k self (pre @ [inp]) =
           Inr (py_max score best,
                saveModel
                  (st\<lparr>totalTrainingSamples_count :=
                        totalTrainingSamples_count st + size1 (trainingMetrics inp),
                      model_dict := trained_model inp,
                      optimizer_dict := trained_optimizer inp\<rparr>)
                  ''seg'' (k + length pre) (feq score (py_max score best)))"
  using assms
proof (induction pre arbitrary: b k self)
  case Nil
  then show ?case by (simp add: bind_err_def Let_def)
next
  case (Cons x pre)
  from main_loop_Cons_Inr [OF Cons.prems(1)]
  obtain r' d' s' where x: "logMetrics (trainingMetrics x) = Inr r'"
    "logMetrics (testingMetrics x) = Inr (d', s')" by blast
  note step = main_loop_Cons [OF x]
  from Cons.prems(1) have "main_loop (py_max s' b) (Suc k)
      (saveModel
         (self\<lparr>totalTrainingSamples_count :=
                  totalTrainingSamples_count self + size1 (trainingMetrics x),
                model_dict := trained_model x, optimizer_dict := trained_optimizer x\<rparr>)
         ''seg'' k (feq s' (py_max s' b))) pre = Inr (best, st)"
    by (simp only: step)
  from Cons.IH [OF this Cons.prems(2,3)] show ?case
    by (simp only: append_Cons step) simp
qed

lemma fadd_NaN_right [simp]: "fadd x NaN = NaN"
  by (cases x) simp_all

lemma flt_NaN_right [simp]: "flt x NaN = False"
  by (cases x) simp_all

lemma logMetrics_Inr_finite:
  assumes "logMetrics m = Inr res"
  shows "all_isfinite m"
  using assms by (cases "all_isfinite m") (simp_all add: logMetrics_def)

lemma logMetrics_Inr_score:
  assumes "logMetrics m = Inr (d, score)"
  shows "score = score_of d"
proof -
  have "all_isfinite m" by (rule logMetrics_Inr_finite [OF assms])
  with assms show ?thesis
    by (cases "length m \<le> METRICS_AFP_NDX") (auto simp: logMetrics_def Let_def)
qed

text \<open>
  The score of a finite buffer is a number when the buffer has a sample column, and NaN
  when it has none (the mean of the empty loss row is NaN).
\<close>

lemma logMetrics_score_is_Fin:
  assumes wf: "wf_metrics n m" and n: "0 < n" and ok: "logMetrics m = Inr (d, score)"
  shows "\<exists>s. score = Fin s"
proof -
  have f: "all_isfinite m"
    by (rule logMetrics_Inr_finite [OF ok])
  have len: "METRICS_AFP_NDX < length m"
    by (rule wf_metrics_length [OF wf])
  then have l: "METRICS_LOSS_NDX < length m"
    by (simp add: ndx_defs)
  from logMetrics_dict [OF f len refl refl refl refl refl] ok
  obtain r f1 where d: "score = score_of d" "pr_recall d = Fin r" "pr_f1_score d = Fin f1"
    "loss_all d = mean (m ! METRICS_LOSS_NDX)"
    "\<exists>x. loss_mal d = nan_to_num x"
    by auto
  let ?ls = "map fin_val (m ! METRICS_LOSS_NDX)"
  have row1: "m ! METRICS_LOSS_NDX = map Fin ?ls"
    by (rule all_isfinite_row [OF f l])
  have "length (m ! METRICS_LOSS_NDX) = n"
    using wf l by (simp add: wf_metrics_def list_all_length)
  with n have ne: "?ls \<noteq> []" by auto
  obtain a where a: "loss_all d = Fin a"
    using d(4) row1 mean_Fin [OF ne] by metis
  obtain b where b: "loss_mal d = Fin b"
    using d(5) by (metis nan_to_num.elims)
  show ?thesis
    using score_of_Fin [OF d(3) d(2) b a] d(1) by simp
qed

lemma logMetrics_score_is_NaN:
  assumes wf: "wf_metrics 0 m" and ok: "logMetrics m = Inr (d, score)"
  shows "score = NaN"
proof -
  have len: "METRICS_AFP_NDX < length m"
    by (rule wf_metrics_length [OF wf])
  then have l: "METRICS_LOSS_NDX < length m"
    by (simp add: ndx_defs)
  have "m ! METRICS_LOSS_NDX = []"
    using wf l by (simp add: wf_metrics_def list_all_length)
  moreover have "all_isfinite m" "\<not> length m \<le> METRICS_AFP_NDX"
    using logMetrics_Inr_finite [OF ok] len by simp_all
  ultimately have "loss_all d = NaN"
    using ok by (auto simp: logMetrics_def Let_def mean_Nil)
  moreover have "score = score_of d"
    by (rule logMetrics_Inr_score [OF ok])
  ultimately show ?thesis
    by (simp add: score_of_def fsub_def)
qed

lemma py_max_Fin: "py_max (Fin a) (Fin b) = Fin (max a b)"
  by (simp add: py_max_def fgt_def max_def)

lemma fge_Fin: "fge (Fin a) (Fin b) \<longleftrightarrow> b \<le> a"
  by (auto simp: fge_def feq_def)

lemma feq_Fin: "feq (Fin a) (Fin b) \<longleftrightarrow> a = b"
  by (simp add: feq_def)

lemma fge_NaN: "\<not> fge NaN x"
  by (simp add: fge_def feq_def)

lemma feq_NaN: "\<not> feq NaN x"
  by (simp add: feq_def)

text \<open>
  While every score is a number, \<open>best_score\<close> is the largest of its initial value and
  the scores seen so far.
\<close>

lemma main_loop_best_score:
  assumes "main_loop (Fin b0) k self pre = Inr (best, st)"
    and "\<forall>x\<in>set pre. \<exists>v. tst_score x = Fin v"
  shows "\<exists>bv. best = Fin bv \<and> (\<forall>s. bv \<le> s \<longleftrightarrow> b0 \<le> s \<and> (\<forall>x\<in>set pre. fin_val (tst_score x) \<le> s))"
  using assms
proof (induction pre arbitrary: b0 k self)
  case Nil
  then show ?case by auto
next
  case (Cons x pre)
  from main_loop_Cons_Inr [OF Cons.prems(1)]
  obtain r' d' s' where x: "logMetrics (trainingMetrics x) = Inr r'"
    "logMetrics (testingMetrics x) = Inr (d', s')" by blast
  then have ts: "tst_score x = s'" by (simp add: tst_score_def)
  with Cons.prems(2) obtain v where v: "s' = Fin v" by auto
  from Cons.prems(1) have run: "main_loop (Fin (max v b0)) (Suc k)
      (saveModel
         (self\<lparr>totalTrainingSamples_count :=
                  totalTrainingSamples_count self + size1 (trainingMetrics x),
                model_dict := trained_model x, optimizer_dict := trained_optimizer x\<rparr>)
         ''seg'' k (feq s' (py_max s' (Fin b0)))) pre = Inr (best, st)"
    by (simp only: main_loop_Cons [OF x] v py_max_Fin)
  from Cons.prems(2) have "\<forall>x\<in>set pre. \<exists>v. tst_score x = Fin v" by simp
  from Cons.IH [OF run this]
  obtain bv where bv: "best = Fin bv"
    "\<forall>s. bv \<le> s \<longleftrightarrow> max v b0 \<le> s \<and> (\<forall>x\<in>set pre. fin_val (tst_score x) \<le> s)"
    by blast
  have "\<forall>s. bv \<le> s \<longleftrightarrow> b0 \<le> s \<and> (\<forall>y\<in>set (x # pre). fin_val (tst_score y) \<le> s)"
    using bv(2) ts v by auto
  with bv(1) show ?case by blast
qed

lemma main_loop_all_ok:
  assumes "main_loop b k self pre = Inr res"
  shows "\<forall>x\<in>set pre. \<exists>d s. logMetrics (testingMetrics x) = Inr (d, s)"
  using assms
proof (induction pre arbitrary: b k self)
  case Nil
  then show ?case by simp
next
  case (Cons x pre)
  from main_loop_Cons_Inr [OF Cons.prems]
  obtain r' d' s' where x: "logMetrics (trainingMetrics x) = Inr r'"
    "logMetrics (testingMetrics x) = Inr (d', s')" by blast
  from Cons.prems have "\<exists>b' k' self'. main_loop b' k' self' pre = Inr res"
    by (simp only: main_loop_Cons [OF x]) blast
  with Cons.IH x(2) show ?case by auto
qed

lemma file_path_update [simp]:
  "file_path (self\<lparr>totalTrainingSamples_count := c, model_dict := md, optimizer_dict := od\<rparr>)
     t s = file_path self t s"
  by (simp add: file_path_def)

lemma isBest_iff:
  assumes cols: "\<forall>x\<in>set (pre @ [inp]). wf_metrics n (testingMetrics x)"
    and pre: "main_loop (Fin 0) k self pre = Inr (best, st)"
    and tst: "logMetrics (testingMetrics inp) = Inr (d, score)"
  shows "feq score (py_max score best) \<longleftrightarrow>
           fge score (Fin 0) \<and> (\<forall>x\<in>set pre. fge score (tst_score x))"
proof (cases "n = 0")
  case True
  with cols have "wf_metrics 0 (testingMetrics inp)" by simp
  from logMetrics_score_is_NaN [OF this tst] show ?thesis
    by (simp add: feq_NaN fge_NaN)
next
  case False
  then have n: "0 < n" by simp
  from cols have "wf_metrics n (testingMetrics inp)" by simp
  from logMetrics_score_is_Fin [OF this n tst] obtain s where s: "score = Fin s" by blast
  have fin: "\<forall>x\<in>set pre. \<exists>v. tst_score x = Fin v"
  proof
    fix x assume x: "x \<in> set pre"
    with main_loop_all_ok [OF pre] obtain d' s' where
      ok: "logMetrics (testingMetrics x) = Inr (d', s')" by blast
    from cols x have "wf_metrics n (testingMetrics x)" by simp
    from logMetrics_score_is_Fin [OF this n ok] ok
    show "\<exists>v. tst_score x = Fin v" by (simp add: tst_score_def)
  qed
  from main_loop_best_score [OF pre fin]
  obtain bv where bv: "best = Fin bv"
    "\<forall>s. bv \<le> s \<longleftrightarrow> 0 \<le> s \<and> (\<forall>x\<in>set pre. fin_val (tst_score x) \<le> s)" by blast
  have "feq score (py_max score best) \<longleftrightarrow> bv \<le> s"
    by (auto simp: s bv(1) py_max_Fin feq_Fin max_def)
  also have "\<dots> \<longleftrightarrow> 0 \<le> s \<and> (\<forall>x\<in>set pre. fin_val (tst_score x) \<le> s)"
    using bv(2) by blast
  also have "\<dots> \<longleftrightarrow> fge score (Fin 0) \<and> (\<forall>x\<in>set pre. fge score (tst_score x))"
  proof -
    have "fge score (tst_score x) \<longleftrightarrow> fin_val (tst_score x) \<le> s" if "x \<in> set pre" for x
    proof -
      from fin that obtain v where "tst_score x = Fin v" by blast
      then show ?thesis by (simp add: s fge_Fin)
    qed
    then show ?thesis by (auto simp: s fge_Fin)
  qed
  finally show ?thesis .
qed

text \<open>
  C5. In a run whose evaluation buffers all have the same number of columns, after the
  epochs \<open>pre\<close> have passed, the next epoch calls saveModel with \<open>isBest\<close> true exactly
  when its score is at least 0 (the initial best score) and at least every earlier
  evaluation score of the run. Then the file with suffix \<open>best\<close> holds the state of this
  epoch; otherwise the file is left as it was.
\<close>

theorem best_checkpoint_policy:
  assumes cols: "\<forall>x\<in>set (pre @ [inp]). wf_metrics n (testingMetrics x)"
    and pre: "main_loop (Fin 0) 1 self pre = Inr (best, st)"
    and trn: "logMetrics (trainingMetrics inp) = Inr r"
    and tst: "logMetrics (testingMetrics inp) = Inr (d, score)"
  shows "\<exists>best' st'.
           main_loop (Fin 0) 1 self (pre @ [inp]) = Inr (best', st') \<and>
           st' = saveModel
                   (st\<lparr>totalTrainingSamples_count :=
                         totalTrainingSamples_count st + size1 (trainingMetrics inp),
                       model_dict := trained_model inp,
                       optimizer_dict := trained_optimizer inp\<rparr>)
                   ''seg'' (Suc (length pre))
                   (fge score (Fin 0) \<and> (\<forall>x\<in>set pre. fge score (tst_score x))) \<and>
           files st' (file_path st ''seg'' ''best'') =
             (if fge score (Fin 0) \<and> (\<forall>x\<in>set pre. fge score (tst_score x))
              then Some \<lparr>model_state = trained_model inp, model_name = ''UNetWrapper'',
                         optimizer_state = trained_optimizer inp, optimizer_name = ''SGD'',
                         epoch = Suc (length pre),
                         saved_totalTrainingSamples_count =
                           totalTrainingSamples_count st + size1 (trainingMetrics inp)\<rparr>
              else files st (file_path st ''seg'' ''best''))"
proof -
  let ?st1 = "st\<lparr>totalTrainingSamples_count :=
                    totalTrainingSamples_count st + size1 (trainingMetrics inp),
                  model_dict := trained_model inp,
                  optimizer_dict := trained_optimizer inp\<rparr>"
  let ?isBest = "fge score (Fin 0) \<and> (\<forall>x\<in>set pre. fge score (tst_score x))"
  have iff: "feq score (py_max score best) \<longleftrightarrow> ?isBest"
    by (rule isBest_iff [OF cols pre tst])
  have run: "main_loop (Fin 0) 1 self (pre @ [inp]) =
      Inr (py_max score best, saveModel ?st1 ''seg'' (Suc (length pre)) ?isBest)"
    using main_loop_snoc [OF pre trn tst] by (simp only: iff) simp
  have "files (saveModel ?st1 ''seg'' (Suc (length pre)) ?isBest)
          (file_path ?st1 ''seg'' ''best'') =
        (if ?isBest
         then Some \<lparr>model_state = model_dict ?st1, model_name = ''UNetWrapper'',
                    optimizer_state = optimizer_dict ?st1, optimizer_name = ''SGD'',
                    epoch = Suc (length pre),
                    saved_totalTrainingSamples_count = totalTrainingSamples_count ?st1\<rparr>
         else files ?st1 (file_path ?st1 ''seg'' ''best''))"
    by (rule saveModel_best_file)
  then have "files (saveModel ?st1 ''seg'' (Suc (length pre)) ?isBest)
          (file_path st ''seg'' ''best'') =
        (if ?isBest
         then Some \<lparr>model_state = trained_model inp, model_name = ''UNetWrapper'',
                    optimizer_state = trained_optimizer inp, optimizer_name = ''SGD'',
                    epoch = Suc (length pre),
                    saved_totalTrainingSamples_count =
                      totalTrainingSamples_count st + size1 (trainingMetrics inp)\<rparr>
         else files st (file_path st ''seg'' ''best''))"
    by simp
  with run show ?thesis by blast
qed


lemma logMetrics_loss_only_buffer:
  "logMetrics (loss_only_buffer l) =
     Inr (\<lparr>loss_all = Fin l, loss_mal = Fin 0, correct_mal = NaN, correct_all = NaN,
           pr_precision = Fin 0, pr_recall = Fin 0, pr_f1_score = Fin 0\<rparr>,
          Fin (1 - l * 0.0001))"
  by (simp add: loss_only_buffer_def logMetrics_def Let_def all_isfinite_def ndx_defs
      fsum_def mean_def masked_def feq_def or_1_def score_of_def)

lemma size1_loss_only_buffer: "size1 (loss_only_buffer l) = 1"
  by (simp add: size1_def loss_only_buffer_def)

lemma fresh_app_count: "totalTrainingSamples_count fresh_app = 0"
  by (simp add: fresh_app_def)

text \<open>
  Scenario C: two evaluation epochs with the scores 0.8 and 0.75. After the run the file
  with suffix \<open>best\<close> holds the state of epoch 1.
\<close>

theorem best_checkpoint_policy_witness:
  "tst_score \<lparr>trainingMetrics = loss_only_buffer 0, testingMetrics = loss_only_buffer 2000,
              trained_model = 10::nat, trained_optimizer = 10::nat\<rparr> = Fin (4/5) \<and>
   tst_score \<lparr>trainingMetrics = loss_only_buffer 0, testingMetrics = loss_only_buffer 2500,
              trained_model = 20::nat, trained_optimizer = 20::nat\<rparr> = Fin (3/4) \<and>
   map_sum id (\<lambda>st. files st ''data-unversioned/part2/models/p2ch12/seg_t_none.best.state'')
     (main fresh_app
        [\<lparr>trainingMetrics = loss_only_buffer 0, testingMetrics = loss_only_buffer 2000,
           trained_model = 10, trained_optimizer = 10\<rparr>,
         \<lparr>trainingMetrics = loss_only_buffer 0, testingMetrics = loss_only_buffer 2500,
           trained_model = 20, trained_optimizer = 20\<rparr>]) =
   Inr (Some \<lparr>model_state = 10, model_name = ''UNetWrapper'', optimizer_state = 10,
              optimizer_name = ''SGD'', epoch = 1, saved_totalTrainingSamples_count = 1\<rparr>)"
proof -
  let ?e1 = "\<lparr>trainingMetrics = loss_only_buffer 0, testingMetrics = loss_only_buffer 2000,
              trained_model = 10::nat, trained_optimizer = 10::nat\<rparr>"
  let ?e2 = "\<lparr>trainingMetrics = loss_only_buffer 0, testingMetrics = loss_only_buffer 2500,
              trained_model = 20::nat, trained_optimizer = 20::nat\<rparr>"
  let ?st = "saveModel
               (fresh_app\<lparr>totalTrainingSamples_count := 1, model_dict := 10,
                          optimizer_dict := 10\<rparr>) ''seg'' 1 True"
  have s1: "tst_score ?e1 = Fin (4/5)" and s2: "tst_score ?e2 = Fin (3/4)"
    by (simp_all add: tst_score_def logMetrics_loss_only_buffer)
  have cols: "\<forall>x\<in>set ([?e1] @ [?e2]). wf_metrics 1 (testingMetrics x)"
    by (simp add: wf_metrics_def loss_only_buffer_def ndx_defs)
  have pre: "main_loop (Fin 0) 1 fresh_app [?e1] = Inr (Fin (4/5), ?st)"
    by (simp add: logMetrics_loss_only_buffer bind_err_def py_max_Fin feq_Fin
        size1_loss_only_buffer fresh_app_count)
  have trn: "logMetrics (trainingMetrics ?e2) =
      Inr (\<lparr>loss_all = Fin 0, loss_mal = Fin 0, correct_mal = NaN, correct_all = NaN,
            pr_precision = Fin 0, pr_recall = Fin 0, pr_f1_score = Fin 0\<rparr>,
           Fin (1 - 0 * 0.0001))"
    by (simp only: epoch_input.simps logMetrics_loss_only_buffer)
  have tst: "logMetrics (testingMetrics ?e2) =
      Inr (\<lparr>loss_all = Fin 2500, loss_mal = Fin 0, correct_mal = NaN, correct_all = NaN,
            pr_precision = Fin 0, pr_recall = Fin 0, pr_f1_score = Fin 0\<rparr>,
           Fin (1 - 2500 * 0.0001))"
    by (simp only: epoch_input.simps logMetrics_loss_only_buffer)
  have best1: "files ?st ''data-unversioned/part2/models/p2ch12/seg_t_none.best.state'' =
      Some \<lparr>model_state = 10, model_name = ''UNetWrapper'', optimizer_state = 10,
            optimizer_name = ''SGD'', epoch = 1, saved_totalTrainingSamples_count = 1\<rparr>"
    by (simp add: saveModel_def Let_def file_path_def fresh_app_def)
  have path: "file_path ?st ''seg'' ''best'' =
      ''data-unversioned/part2/models/p2ch12/seg_t_none.best.state''"
    by (simp add: saveModel_def Let_def file_path_def fresh_app_def)
  from best_checkpoint_policy [OF cols pre trn tst]
  obtain b' st' where run: "main_loop (Fin 0) 1 fresh_app ([?e1] @ [?e2]) = Inr (b', st')"
    and f: "files st' (file_path ?st ''seg'' ''best'') =
      (if fge (Fin (1 - 2500 * 0.0001)) (Fin 0) \<and>
          (\<forall>x\<in>set [?e1]. fge (Fin (1 - 2500 * 0.0001)) (tst_score x))
       then Some \<lparr>model_state = trained_model ?e2, model_name = ''UNetWrapper'',
                  optimizer_state = trained_optimizer ?e2, optimizer_name = ''SGD'',
                  epoch = Suc (length [?e1]),
                  saved_totalTrainingSamples_count =
                    totalTrainingSamples_count ?st + size1 (trainingMetrics ?e2)\<rparr>
       else files ?st (file_path ?st ''seg'' ''best''))"
    by blast
  have nb: "\<not> (\<forall>x\<in>set [?e1]. fge (Fin (1 - 2500 * 0.0001)) (tst_score x))"
    by (simp add: s1 fge_Fin)
  from f nb have "files st' (file_path ?st ''seg'' ''best'') =
      files ?st (file_path ?st ''seg'' ''best'')"
    by (simp only: HOL.simp_thms if_False)
  then have "files st' ''data-unversioned/part2/models/p2ch12/seg_t_none.best.state'' =
      Some \<lparr>model_state = 10, model_name = ''UNetWrapper'', optimizer_state = 10,
            optimizer_name = ''SGD'', epoch = 1, saved_totalTrainingSamples_count = 1\<rparr>"
    by (simp only: path best1)
  with run have "map_sum id
          (\<lambda>st. files st ''data-unversioned/part2/models/p2ch12/seg_t_none.best.state'')
          (main fresh_app [?e1, ?e2]) =
        Inr (Some \<lparr>model_state = 10, model_name = ''UNetWrapper'', optimizer_state = 10,
              optimizer_name = ''SGD'', epoch = 1, saved_totalTrainingSamples_count = 1\<rparr>)"
    by (simp add: main_def)
  with s1 s2 show ?thesis by simp
qed

text \<open>
  C10, as amended. For a finite buffer with at least one sample column, whose two loss
  rows lie in \<open>[0, 1]\<close> and whose rows ATP, AFN and AFP are non-negative, the score is at
  least \<open>1 - 0.01 - 0.001 - 0.0001\<close>, hence at least 0. With such an evaluation buffer in
  the first epoch of a run, main calls saveModel with \<open>isBest\<close> true, which writes the
  file with suffix \<open>best\<close>.
\<close>

theorem first_epoch_is_best:
  assumes wf: "wf_metrics n m" and n: "0 < n"
    and fin: "\<forall>row\<in>set m. \<forall>x\<in>set row. isfinite x"
    and loss: "\<forall>x\<in>set (m ! METRICS_LOSS_NDX). 0 \<le> fin_val x \<and> fin_val x \<le> 1"
    and mal_loss: "\<forall>x\<in>set (m ! METRICS_MAL_LOSS_NDX). 0 \<le> fin_val x \<and> fin_val x \<le> 1"
    and atp: "\<forall>x\<in>set (m ! METRICS_ATP_NDX). 0 \<le> fin_val x"
    and afn: "\<forall>x\<in>set (m ! METRICS_AFN_NDX). 0 \<le> fin_val x"
    and afp: "\<forall>x\<in>set (m ! METRICS_AFP_NDX). 0 \<le> fin_val x"
    and tst: "testingMetrics inp = m"
    and trn: "logMetrics (trainingMetrics inp) = Inr r"
  shows "\<exists>d s. logMetrics m = Inr (d, Fin s) \<and>
           1 - 0.01 - 0.001 - 0.0001 \<le> s \<and> 0 \<le> s \<and>
           main_loop (Fin 0) 1 self (inp # rest) =
             main_loop (Fin s) 2
               (saveModel
                  (self\<lparr>totalTrainingSamples_count :=
                           totalTrainingSamples_count self + size1 (trainingMetrics inp),
                         model_dict := trained_model inp,
                         optimizer_dict := trained_optimizer inp\<rparr>)
                  ''seg'' 1 True)
               rest \<and>
           files (saveModel
                    (self\<lparr>totalTrainingSamples_count :=
                             totalTrainingSamples_count self + size1 (trainingMetrics inp),
                           model_dict := trained_model inp,
                           optimizer_dict := trained_optimizer inp\<rparr>)
                    ''seg'' 1 True)
                 (file_path self ''seg'' ''best'') =
             Some \<lparr>model_state = trained_model inp, model_name = ''UNetWrapper'',
                    optimizer_state = trained_optimizer inp, optimizer_name = ''SGD'',
                    epoch = 1,
                    saved_totalTrainingSamples_count =
                      totalTrainingSamples_count self + size1 (trainingMetrics inp)\<rparr>"
proof -
  let ?self1 = "self\<lparr>totalTrainingSamples_count :=
                       totalTrainingSamples_count self + size1 (trainingMetrics inp),
                     model_dict := trained_model inp,
                     optimizer_dict := trained_optimizer inp\<rparr>"
  from logMetrics_score_bounds [OF wf n fin loss mal_loss atp afn afp]
  obtain d s where ds: "logMetrics m = Inr (d, Fin s)" "1 - 0.01 - 0.001 - 0.0001 \<le> s"
    by blast
  from ds(2) have s0: "0 \<le> s" by simp
  have mx: "py_max (Fin s) (Fin 0) = Fin s"
    using s0 by (simp add: py_max_Fin max_def)
  from ds(1) tst have t: "logMetrics (testingMetrics inp) = Inr (d, Fin s)" by simp
  have run: "main_loop (Fin 0) 1 self (inp # rest) =
      main_loop (Fin s) 2 (saveModel ?self1 ''seg'' 1 True) rest"
    using main_loop_Cons [OF trn t, of "Fin 0" 1 self rest]
    by (simp add: mx feq_Fin numeral_2_eq_2)
  have "files (saveModel ?self1 ''seg'' 1 True) (file_path ?self1 ''seg'' ''best'') =
      Some \<lparr>model_state = model_dict ?self1, model_name = ''UNetWrapper'',
            optimizer_state = optimizer_dict ?self1, optimizer_name = ''SGD'',
            epoch = 1,
            saved_totalTrainingSamples_count = totalTrainingSamples_count ?self1\<rparr>"
    using saveModel_best_file [of ?self1 "''seg''" 1 True] by simp
  then have bestf: "files (saveModel ?self1 ''seg'' 1 True) (file_path self ''seg'' ''best'') =
      Some \<lparr>model_state = trained_model inp, model_name = ''UNetWrapper'',
            optimizer_state = trained_optimizer inp, optimizer_name = ''SGD'',
            epoch = 1,
            saved_totalTrainingSamples_count =
              totalTrainingSamples_count self + size1 (trainingMetrics inp)\<rparr>"
    by simp
  from ds s0 run bestf show ?thesis by blast
qed


theorem first_epoch_is_best_witness:
  "wf_metrics 2 [[Fin 1, Fin 0], [Fin (1/2), Fin (1/4)], [Fin (1/8), Fin 0], [Fin 0, Fin 0],
      [Fin 3, Fin 0], [Fin 1, Fin 0], [Fin 0, Fin 0], [Fin 3, Fin 1], [Fin 1, Fin 0],
      [Fin 0, Fin 4]] \<and>
   map_sum id (\<lambda>st. files st ''data-unversioned/part2/models/p2ch12/seg_t_none.best.state'')
     (main fresh_app
        [\<lparr>trainingMetrics = loss_only_buffer 0,
           testingMetrics = [[Fin 1, Fin 0], [Fin (1/2), Fin (1/4)], [Fin (1/8), Fin 0],
             [Fin 0, Fin 0], [Fin 3, Fin 0], [Fin 1, Fin 0], [Fin 0, Fin 0], [Fin 3, Fin 1],
             [Fin 1, Fin 0], [Fin 0, Fin 4]],
           trained_model = 10, trained_optimizer = 10\<rparr>]) =
   Inr (Some \<lparr>model_state = 10, model_name = ''UNetWrapper'', optimizer_state = 10,
              optimizer_name = ''SGD'', epoch = 1, saved_totalTrainingSamples_count = 1\<rparr>)"
proof -
  let ?m = "[[Fin 1, Fin 0], [Fin (1/2), Fin (1/4)], [Fin (1/8), Fin 0], [Fin 0, Fin 0],
      [Fin 3, Fin 0], [Fin 1, Fin 0], [Fin 0, Fin 0], [Fin 3, Fin 1], [Fin 1, Fin 0],
      [Fin 0, Fin 4]]"
  let ?inp = "\<lparr>trainingMetrics = loss_only_buffer 0, testingMetrics = ?m,
      trained_model = 10::nat, trained_optimizer = 10::nat\<rparr>"
  have wf: "wf_metrics 2 ?m" by (simp add: wf_metrics_def ndx_defs)
  have n: "(0::nat) < 2" by simp
  have fin: "\<forall>row\<in>set ?m. \<forall>x\<in>set row. isfinite x" by simp
  have loss: "\<forall>x\<in>set (?m ! METRICS_LOSS_NDX). 0 \<le> fin_val x \<and> fin_val x \<le> 1"
    and mal_loss: "\<forall>x\<in>set (?m ! METRICS_MAL_LOSS_NDX). 0 \<le> fin_val x \<and> fin_val x \<le> 1"
    and atp: "\<forall>x\<in>set (?m ! METRICS_ATP_NDX). 0 \<le> fin_val x"
    and afn: "\<forall>x\<in>set (?m ! METRICS_AFN_NDX). 0 \<le> fin_val x"
    and afp: "\<forall>x\<in>set (?m ! METRICS_AFP_NDX). 0 \<le> fin_val x"
    by (simp_all add: ndx_defs)
  have tst: "testingMetrics ?inp = ?m" by simp
  have trn: "logMetrics (trainingMetrics ?inp) =
      Inr (\<lparr>loss_all = Fin 0, loss_mal = Fin 0, correct_mal = NaN, correct_all = NaN,
            pr_precision = Fin 0, pr_recall = Fin 0, pr_f1_score = Fin 0\<rparr>,
           Fin (1 - 0 * 0.0001))"
    by (simp only: epoch_input.simps logMetrics_loss_only_buffer)
  have path: "file_path fresh_app ''seg'' ''best'' =
      ''data-unversioned/part2/models/p2ch12/seg_t_none.best.state''"
    by (simp add: file_path_def fresh_app_def)
  from first_epoch_is_best [OF wf n fin loss mal_loss atp afn afp tst trn, of fresh_app "[]"]
  have "map_sum id
          (\<lambda>st. files st ''data-unversioned/part2/models/p2ch12/seg_t_none.best.state'')
          (main fresh_app [?inp]) =
        Inr (Some \<lparr>model_state = 10, model_name = ''UNetWrapper'', optimizer_state = 10,
              optimizer_name = ''SGD'', epoch = 1, saved_totalTrainingSamples_count = 1\<rparr>)"
    unfolding path main_def
    by (auto simp: size1_loss_only_buffer fresh_app_count)
  with wf show ?thesis by simp
qed

text \<open>
  C10 as stated fails on the buffer of an epoch without samples: it is finite and
  satisfies the bounds on its rows, but the mean of its empty loss row is NaN, so the
  score is NaN, which is not at least 0, and main does not write the file with suffix
  \<open>best\<close>.
\<close>

theorem empty_buffer_counterexample:
  "wf_metrics 0 empty_buffer \<and> all_isfinite empty_buffer \<and>
   logMetrics empty_buffer =
     Inr (\<lparr>loss_all = NaN, loss_mal = Fin 0, correct_mal = NaN, correct_all = NaN,
           pr_precision = Fin 0, pr_recall = Fin 0, pr_f1_score = Fin 0\<rparr>, NaN) \<and>
   \<not> fge NaN (Fin 0) \<and>
   map_sum id (\<lambda>st. files st ''data-unversioned/part2/models/p2ch12/seg_t_none.best.state'')
     (main fresh_app
        [\<lparr>trainingMetrics = empty_buffer, testingMetrics = empty_buffer,
           trained_model = 10, trained_optimizer = 10\<rparr>]) = Inr None"
proof -
  have wf: "wf_metrics 0 empty_buffer" and fin: "all_isfinite empty_buffer"
    by (simp_all add: wf_metrics_def empty_buffer_def ndx_defs all_isfinite_def)
  have lm: "logMetrics empty_buffer =
     Inr (\<lparr>loss_all = NaN, loss_mal = Fin 0, correct_mal = NaN, correct_all = NaN,
           pr_precision = Fin 0, pr_recall = Fin 0, pr_f1_score = Fin 0\<rparr>, NaN)"
    by (simp add: empty_buffer_def logMetrics_def Let_def all_isfinite_def ndx_defs
        fsum_def mean_def masked_def or_1_def score_of_def fsub_def)
  have sz: "size1 empty_buffer = 0"
    by (simp add: size1_def empty_buffer_def)
  have mx: "py_max NaN (Fin 0) = NaN"
    by (simp add: py_max_def fgt_def)
  have run: "map_sum id
      (\<lambda>st. files st ''data-unversioned/part2/models/p2ch12/seg_t_none.best.state'')
      (main fresh_app
         [\<lparr>trainingMetrics = empty_buffer, testingMetrics = empty_buffer,
            trained_model = 10, trained_optimizer = 10\<rparr>]) = Inr None"
    by (simp add: main_def lm bind_err_def mx feq_NaN sz saveModel_def Let_def
        file_path_def fresh_app_def str_nat.simps)
  from wf fin lm run show ?thesis by (simp add: fge_NaN)
qed

section \<open>The best file after a whole run\<close>

lemma saveModel_path_fields:
  "tb_prefix (saveModel self t k isBest) = tb_prefix self \<and>
   comment (saveModel self t k isBest) = comment self \<and>
   time_str (saveModel self t k isBest) = time_str self"
  by (simp add: saveModel_def Let_def)

lemma main_loop_file_path:
  assumes "main_loop b k self epochs = Inr (best, st)"
  shows "file_path st t s = file_path self t s"
  using assms
proof (induction epochs arbitrary: b k self)
  case Nil
  then show ?case by simp
next
  case (Cons x epochs)
  from main_loop_Cons_Inr [OF Cons.prems]
  obtain r' d' s' where x: "logMetrics (trainingMetrics x) = Inr r'"
    "logMetrics (testingMetrics x) = Inr (d', s')" by blast
  from Cons.prems have "main_loop (py_max s' b) (Suc k)
      (saveModel
         (self\<lparr>totalTrainingSamples_count :=
                  totalTrainingSamples_count self + size1 (trainingMetrics x),
                model_dict := trained_model x, optimizer_dict := trained_optimizer x\<rparr>)
         ''seg'' k (feq s' (py_max s' b))) epochs = Inr (best, st)"
    by (simp only: main_loop_Cons [OF x])
  from Cons.IH [OF this] show ?case
    by (simp add: file_path_def saveModel_path_fields)
qed

lemma main_loop_snoc_Inr:
  assumes "main_loop b k self (pre @ [inp]) = Inr res"
  shows "\<exists>best st r d score. main_loop b k self pre = Inr (best, st) \<and>
           logMetrics (trainingMetrics inp) = Inr r \<and>
           logMetrics (testingMetrics inp) = Inr (d, score)"
  using assms
proof (induction pre arbitrary: b k self)
  case Nil
  from main_loop_Cons_Inr [of b k self inp "[]" res] Nil show ?case by simp
next
  case (Cons x pre)
  from Cons.prems have run: "main_loop b k self (x # (pre @ [inp])) = Inr res" by simp
  from main_loop_Cons_Inr [OF run]
  obtain r' d' s' where x: "logMetrics (trainingMetrics x) = Inr r'"
    "logMetrics (testingMetrics x) = Inr (d', s')" by blast
  from run have "main_loop (py_max s' b) (Suc k)
      (saveModel
         (self\<lparr>totalTrainingSamples_count :=
                  totalTrainingSamples_count self + size1 (trainingMetrics x),
                model_dict := trained_model x, optimizer_dict := trained_optimizer x\<rparr>)
         ''seg'' k (feq s' (py_max s' b))) (pre @ [inp]) = Inr res"
    by (simp only: main_loop_Cons [OF x])
  from Cons.IH [OF this] show ?case
    by (simp only: main_loop_Cons [OF x])
qed

text \<open>
  After a run whose evaluation buffers have \<open>n > 0\<close> columns each, either no score
  reached 0 and the file with suffix \<open>best\<close> is as it was before the run, or the file
  holds the state of an epoch whose score is the highest of the run and which no later
  epoch has matched.
\<close>

lemma best_file_highest_score:
  assumes cols: "\<forall>x\<in>set epochs. wf_metrics n (testingMetrics x)" and n: "0 < n"
    and run: "main_loop (Fin 0) 1 self epochs = Inr (best, st)"
  shows "(best = Fin 0 \<and> (\<forall>x\<in>set epochs. \<not> fge (tst_score x) (Fin 0)) \<and>
          files st (file_path self ''seg'' ''best'') = files self (file_path self ''seg'' ''best''))
       \<or> (\<exists>k<length epochs. \<exists>c.
            files st (file_path self ''seg'' ''best'') =
              Some \<lparr>model_state = trained_model (epochs ! k), model_name = ''UNetWrapper'',
                     optimizer_state = trained_optimizer (epochs ! k),
                     optimizer_name = ''SGD'', epoch = Suc k,
                     saved_totalTrainingSamples_count = c\<rparr> \<and>
            tst_score (epochs ! k) = best \<and> fge best (Fin 0) \<and>
            (\<forall>x\<in>set epochs. fge best (tst_score x)) \<and>
            (\<forall>j<length epochs. k < j \<longrightarrow> \<not> fge (tst_score (epochs ! j)) best))"
  using cols run
proof (induction epochs arbitrary: best st rule: rev_induct)
  case Nil
  then show ?case by simp
next
  case (snoc inp pre)
  from main_loop_snoc_Inr [OF snoc.prems(2)]
  obtain b0 st0 r d score where pre: "main_loop (Fin 0) 1 self pre = Inr (b0, st0)"
    and trn: "logMetrics (trainingMetrics inp) = Inr r"
    and tst: "logMetrics (testingMetrics inp) = Inr (d, score)" by blast
  let ?st1 = "st0\<lparr>totalTrainingSamples_count :=
                     totalTrainingSamples_count st0 + size1 (trainingMetrics inp),
                   model_dict := trained_model inp,
                   optimizer_dict := trained_optimizer inp\<rparr>"
  let ?p = "file_path self ''seg'' ''best''"
  from snoc.prems(1) have cols0: "\<forall>x\<in>set pre. wf_metrics n (testingMetrics x)"
    and wfi: "wf_metrics n (testingMetrics inp)" by simp_all
  note IH = snoc.IH [OF cols0 pre]
  have ts: "tst_score inp = score" using tst by (simp add: tst_score_def)
  from logMetrics_score_is_Fin [OF wfi n tst] obtain s where s: "score = Fin s" by blast
  have fin: "\<forall>x\<in>set pre. \<exists>v. tst_score x = Fin v"
  proof
    fix x assume x: "x \<in> set pre"
    with main_loop_all_ok [OF pre] obtain d' s' where
      ok: "logMetrics (testingMetrics x) = Inr (d', s')" by blast
    from logMetrics_score_is_Fin [OF _ n ok] cols0 x ok
    show "\<exists>v. tst_score x = Fin v" by (simp add: tst_score_def)
  qed
  from main_loop_best_score [OF pre fin]
  obtain bv where bv: "b0 = Fin bv"
    "\<forall>s. bv \<le> s \<longleftrightarrow> 0 \<le> s \<and> (\<forall>x\<in>set pre. fin_val (tst_score x) \<le> s)" by blast
  have path: "file_path st0 ''seg'' ''best'' = ?p"
    by (rule main_loop_file_path [OF pre])
  from main_loop_snoc [OF pre trn tst] snoc.prems(2)
  have res: "best = py_max score b0"
    "st = saveModel ?st1 ''seg'' (1 + length pre) (feq score (py_max score b0))"
    by auto
  have fileq: "files st ?p =
      (if feq score (py_max score b0)
       then Some \<lparr>model_state = trained_model inp, model_name = ''UNetWrapper'',
                  optimizer_state = trained_optimizer inp, optimizer_name = ''SGD'',
                  epoch = Suc (length pre),
                  saved_totalTrainingSamples_count =
                    totalTrainingSamples_count st0 + size1 (trainingMetrics inp)\<rparr>
       else files st0 ?p)"
    using saveModel_best_file [of ?st1 "''seg''" "1 + length pre" "feq score (py_max score b0)"]
    by (cases "feq score (py_max score b0)") (simp_all add: res(2) path)
  have bv_ge: "0 \<le> bv" "\<forall>x\<in>set pre. fin_val (tst_score x) \<le> bv"
    using bv(2) by auto
  show ?case
  proof (cases "bv \<le> s")
    case True
    \<comment> \<open>this epoch is the best so far: it takes the file\<close>
    then have best: "best = Fin s" and isb: "feq score (py_max score b0)"
      by (simp_all add: res(1) s bv(1) py_max_Fin feq_Fin max_def)
    have all: "\<forall>x\<in>set (pre @ [inp]). fge best (tst_score x)"
    proof
      fix x assume "x \<in> set (pre @ [inp])"
      then consider "x = inp" | "x \<in> set pre" by auto
      then show "fge best (tst_score x)"
      proof cases
        case 1
        then show ?thesis by (simp add: ts s best fge_Fin)
      next
        case 2
        with fin obtain v where v: "tst_score x = Fin v" by blast
        with bv_ge(2) 2 have "v \<le> bv" by force
        with True v show ?thesis by (simp add: best fge_Fin)
      qed
    qed
    have "length pre < length (pre @ [inp])" by simp
    moreover have "files st ?p =
        Some \<lparr>model_state = trained_model ((pre @ [inp]) ! length pre),
              model_name = ''UNetWrapper'',
              optimizer_state = trained_optimizer ((pre @ [inp]) ! length pre),
              optimizer_name = ''SGD'', epoch = Suc (length pre),
              saved_totalTrainingSamples_count =
                totalTrainingSamples_count st0 + size1 (trainingMetrics inp)\<rparr>"
      using fileq isb by simp
    moreover have "tst_score ((pre @ [inp]) ! length pre) = best"
      by (simp add: ts s best)
    moreover have "fge best (Fin 0)"
      using True bv_ge(1) by (simp add: best fge_Fin)
    moreover have "\<forall>j<length (pre @ [inp]). length pre < j \<longrightarrow>
        \<not> fge (tst_score ((pre @ [inp]) ! j)) best"
      by simp
    ultimately show ?thesis using all by blast
  next
    case False
    \<comment> \<open>this epoch is below the best so far: the file stays\<close>
    then have best: "best = b0" and nb: "\<not> feq score (py_max score b0)"
      by (simp_all add: res(1) s bv(1) py_max_Fin feq_Fin max_def)
    have keep: "files st ?p = files st0 ?p" using fileq nb by simp
    have low: "\<not> fge (tst_score inp) best"
      using False by (simp add: ts s best bv(1) fge_Fin)
    have lowb: "fge best (tst_score inp)"
      using False by (simp add: ts s best bv(1) fge_Fin)
    from IH show ?thesis
    proof
      assume A: "b0 = Fin 0 \<and> (\<forall>x\<in>set pre. \<not> fge (tst_score x) (Fin 0)) \<and>
          files st0 ?p = files self ?p"
      with low best have "\<forall>x\<in>set (pre @ [inp]). \<not> fge (tst_score x) (Fin 0)"
        by auto
      with A keep best show ?thesis by simp
    next
      assume "\<exists>k<length pre. \<exists>c.
          files st0 ?p =
            Some \<lparr>model_state = trained_model (pre ! k), model_name = ''UNetWrapper'',
                  optimizer_state = trained_optimizer (pre ! k),
                  optimizer_name = ''SGD'', epoch = Suc k,
                  saved_totalTrainingSamples_count = c\<rparr> \<and>
          tst_score (pre ! k) = b0 \<and> fge b0 (Fin 0) \<and>
          (\<forall>x\<in>set pre. fge b0 (tst_score x)) \<and>
          (\<forall>j<length pre. k < j \<longrightarrow> \<not> fge (tst_score (pre ! j)) b0)"
      then obtain k c where k: "k < length pre"
        and f: "files st0 ?p =
            Some \<lparr>model_state = trained_model (pre ! k), model_name = ''UNetWrapper'',
                  optimizer_state = trained_optimizer (pre ! k),
                  optimizer_name = ''SGD'', epoch = Suc k,
                  saved_totalTrainingSamples_count = c\<rparr>"
        and sc: "tst_score (pre ! k) = b0" "fge b0 (Fin 0)"
        and hi: "\<forall>x\<in>set pre. fge b0 (tst_score x)"
        and later: "\<forall>j<length pre. k < j \<longrightarrow> \<not> fge (tst_score (pre ! j)) b0"
        by blast
      have nk: "(pre @ [inp]) ! k = pre ! k" using k by (simp add: nth_append)
      have "k < length (pre @ [inp])" using k by simp
      moreover have "files st ?p =
          Some \<lparr>model_state = trained_model ((pre @ [inp]) ! k), model_name = ''UNetWrapper'',
                optimizer_state = trained_optimizer ((pre @ [inp]) ! k),
                optimizer_name = ''SGD'', epoch = Suc k,
                saved_totalTrainingSamples_count = c\<rparr>"
        using keep f nk by simp
      moreover have "tst_score ((pre @ [inp]) ! k) = best" using sc(1) nk best by simp
      moreover have "fge best (Fin 0)" using sc(2) best by simp
      moreover have "\<forall>x\<in>set (pre @ [inp]). fge best (tst_score x)"
        using hi lowb best by auto
      moreover have "\<forall>j<length (pre @ [inp]). k < j \<longrightarrow>
          \<not> fge (tst_score ((pre @ [inp]) ! j)) best"
      proof (intro allI impI)
        fix j assume j: "j < length (pre @ [inp])" "k < j"
        show "\<not> fge (tst_score ((pre @ [inp]) ! j)) best"
        proof (cases "j < length pre")
          case True
          with later j(2) best show ?thesis by (simp add: nth_append)
        next
          case False
          with j(1) have "j = length pre" by simp
          with low show ?thesis by simp
        qed
      qed
      ultimately show ?thesis by blast
    qed
  qed
qed

section \<open>Properties of computeBatchLoss and the batch loop\<close>

lemma wf_tensor_zeros: "wf_tensor n (zeros METRICS_SIZE n)"
  by (simp add: wf_tensor_def wf_metrics_def zeros_def list_all_length)

lemma wf_tensor_row:
  assumes "wf_tensor n m" and "row < METRICS_SIZE"
  shows "length (vals m ! row) = n" and "length (writes m ! row) = n"
    and "row < length (vals m)" and "row < length (writes m)"
  using assms by (simp_all add: wf_tensor_def wf_metrics_def list_all_length)

lemma list_all_update:
  "list_all P xs \<Longrightarrow> P x \<Longrightarrow> list_all P (xs[i := x])"
  by (auto simp: list_all_iff dest: set_update_subset_insert [THEN subsetD])

lemma assign_slice_in_range:
  assumes wf: "wf_tensor n m" and row: "row < METRICS_SIZE"
    and len: "length values = N" and rng: "s + N \<le> n"
  shows "\<exists>m'. assign_slice row s (s + N) values m = Inr m' \<and> wf_tensor n m' \<and>
           vals m' = (vals m)[row := take s (vals m ! row) @ values @ drop (s + N) (vals m ! row)] \<and>
           writes m' = (writes m)[row := add_range s N (writes m ! row)]"
proof -
  note r = wf_tensor_row [OF wf row]
  have s: "min s (length (vals m ! row)) = s"
    and e: "max s (min (s + N) (length (vals m ! row))) = s + N"
    using r(1) rng by simp_all
  let ?m' = "\<lparr>vals = (vals m)[row := take s (vals m ! row) @ values @ drop (s + N) (vals m ! row)],
               writes = (writes m)[row := add_range s N (writes m ! row)]\<rparr>"
  have eq: "assign_slice row s (s + N) values m = Inr ?m'"
    using r(1,3) len rng by (simp add: assign_slice_def Let_def add_range_def)
  have "wf_tensor n ?m'"
    using wf r rng len
    by (simp add: wf_tensor_def wf_metrics_def add_range_def list_all_update)
  with eq show ?thesis by simp
qed


lemma shape_threshold: "map length (threshold t) = map length t"
  by (simp add: threshold_def)

lemma shape_one_minus: "map length (one_minus t) = map length t"
  by (simp add: one_minus_def)

lemma length_one_minus [simp]: "length (one_minus t) = length t"
  by (simp add: one_minus_def)

lemma length_threshold [simp]: "length (threshold t) = length t"
  by (simp add: threshold_def)

lemma shape_tmul: "map length a = map length b \<Longrightarrow> map length (tmul a b) = map length a"
proof (induction a arbitrary: b)
  case Nil
  then show ?case by (simp add: tmul_def)
next
  case (Cons x a)
  then obtain y b' where b: "b = y # b'" by (cases b) auto
  with Cons.prems have "length x = length y" "map length a = map length b'" by simp_all
  with Cons.IH [of b'] b show ?case by (simp add: tmul_def)
qed

lemma length_sum_dim1_tmul:
  "map length a = map length b \<Longrightarrow> length (sum_dim1 (tmul a b)) = length a"
  using shape_tmul [of a b] by (simp add: sum_dim1_def) (metis length_map)

lemma intersectionSum_ok:
  assumes "map length a = map length b"
  shows "\<exists>v. intersectionSum a b = Inr v \<and> length v = length a"
  using assms length_sum_dim1_tmul [OF assms]
  by (simp add: intersectionSum_def same_shape_def)

lemma diceLoss_ok:
  assumes "map length a = map length b"
  shows "\<exists>v. diceLoss a b eps = Inr v \<and> length v = length a"
proof -
  have s: "same_shape a b" using assms by (simp add: same_shape_def)
  from diceLoss_eq_spec [OF s, of eps] same_shape_length [OF s] show ?thesis by simp
qed


lemma computeBatchLoss_writes:
  assumes wf: "wf_tensor n m" and b: "wf_batch N b" and rng: "k * bs + N \<le> n"
  shows "\<exists>loss m'. computeBatchLoss k b bs m = Inr (loss, m') \<and> wf_tensor n m' \<and>
           (\<forall>row\<in>set written_rows. writes m' ! row = add_range (k * bs) N (writes m ! row)) \<and>
           (\<forall>row<METRICS_SIZE. row \<notin> set written_rows \<longrightarrow>
              writes m' ! row = writes m ! row \<and> vals m' ! row = vals m ! row)"
proof -
  let ?L = "label_tensor b" and ?P = "prediction b"
  let ?s = "k * bs"
  from b have N: "length ?L = N" "length (label_list b) = N"
    and sh: "map length ?P = map length ?L" "map length (ben_tensor b) = map length ?L"
      "map length (mal_tensor b) = map length ?L"
    by (auto simp: wf_batch_def same_shape_def)
  have e: "?s + length ?L = ?s + N" using N by simp
  obtain dl where dl: "diceLoss ?L ?P epsilon_default = Inr dl" "length dl = N"
    using diceLoss_ok [of ?L ?P] sh N by auto
  obtain m1 where m1: "assign_slice METRICS_LABEL_NDX ?s (?s + N)
        (map (\<lambda>l. Fin (real_of_int l)) (label_list b)) m = Inr m1" "wf_tensor n m1"
      "writes m1 = (writes m)[METRICS_LABEL_NDX := add_range ?s N (writes m ! METRICS_LABEL_NDX)]"
      "vals m1 = (vals m)[METRICS_LABEL_NDX := take ?s (vals m ! METRICS_LABEL_NDX) @
          map (\<lambda>l. Fin (real_of_int l)) (label_list b) @ drop (?s + N) (vals m ! METRICS_LABEL_NDX)]"
    using assign_slice_in_range [OF wf _ _ rng, of METRICS_LABEL_NDX
        "map (\<lambda>l. Fin (real_of_int l)) (label_list b)"] N
    by (auto simp: ndx_defs)
  obtain m2 where m2: "assign_slice METRICS_LOSS_NDX ?s (?s + N) dl m1 = Inr m2"
      "wf_tensor n m2"
      "writes m2 = (writes m1)[METRICS_LOSS_NDX := add_range ?s N (writes m1 ! METRICS_LOSS_NDX)]"
      "vals m2 = (vals m1)[METRICS_LOSS_NDX := take ?s (vals m1 ! METRICS_LOSS_NDX) @
          dl @ drop (?s + N) (vals m1 ! METRICS_LOSS_NDX)]"
    using assign_slice_in_range [OF m1(2) _ dl(2) rng, of METRICS_LOSS_NDX]
    by (auto simp: ndx_defs)
  let ?B = "threshold ?P"
  obtain tp where tp: "intersectionSum ?L ?B = Inr tp" "length tp = N"
    using intersectionSum_ok [of ?L ?B] sh N by (auto simp: shape_threshold)
  obtain fn where fn: "intersectionSum ?L (one_minus ?B) = Inr fn" "length fn = N"
    using intersectionSum_ok [of ?L "one_minus ?B"] sh N
    by (auto simp: shape_threshold shape_one_minus)
  obtain fp where fp: "intersectionSum (one_minus ?L) ?B = Inr fp" "length fp = N"
    using intersectionSum_ok [of "one_minus ?L" ?B] sh N
    by (auto simp: shape_threshold shape_one_minus)
  obtain m3 where m3: "assign_slice METRICS_ATP_NDX ?s (?s + N) tp m2 = Inr m3"
      "wf_tensor n m3"
      "writes m3 = (writes m2)[METRICS_ATP_NDX := add_range ?s N (writes m2 ! METRICS_ATP_NDX)]"
      "vals m3 = (vals m2)[METRICS_ATP_NDX := take ?s (vals m2 ! METRICS_ATP_NDX) @
          tp @ drop (?s + N) (vals m2 ! METRICS_ATP_NDX)]"
    using assign_slice_in_range [OF m2(2) _ tp(2) rng, of METRICS_ATP_NDX]
    by (auto simp: ndx_defs)
  obtain m4 where m4: "assign_slice METRICS_AFN_NDX ?s (?s + N) fn m3 = Inr m4"
      "wf_tensor n m4"
      "writes m4 = (writes m3)[METRICS_AFN_NDX := add_range ?s N (writes m3 ! METRICS_AFN_NDX)]"
      "vals m4 = (vals m3)[METRICS_AFN_NDX := take ?s (vals m3 ! METRICS_AFN_NDX) @
          fn @ drop (?s + N) (vals m3 ! METRICS_AFN_NDX)]"
    using assign_slice_in_range [OF m3(2) _ fn(2) rng, of METRICS_AFN_NDX]
    by (auto simp: ndx_defs)
  obtain m5 where m5: "assign_slice METRICS_AFP_NDX ?s (?s + N) fp m4 = Inr m5"
      "wf_tensor n m5"
      "writes m5 = (writes m4)[METRICS_AFP_NDX := add_range ?s N (writes m4 ! METRICS_AFP_NDX)]"
      "vals m5 = (vals m4)[METRICS_AFP_NDX := take ?s (vals m4 ! METRICS_AFP_NDX) @
          fp @ drop (?s + N) (vals m4 ! METRICS_AFP_NDX)]"
    using assign_slice_in_range [OF m4(2) _ fp(2) rng, of METRICS_AFP_NDX]
    by (auto simp: ndx_defs)
  let ?M = "tmul ?B (one_minus (ben_tensor b))"
  have shM: "map length ?M = map length ?L"
    using shape_tmul [of ?B "one_minus (ben_tensor b)"] sh
    by (simp add: shape_threshold shape_one_minus)
  have mp: "tmul_checked ?B (one_minus (ben_tensor b)) = Inr ?M"
    using sh by (simp add: tmul_checked_def same_shape_def shape_threshold shape_one_minus)
  have lm: "length (mal_tensor b) = N"
    using sh(3) N by (metis length_map)
  obtain mtp where mtp: "intersectionSum (mal_tensor b) ?M = Inr mtp" "length mtp = N"
    using intersectionSum_ok [of "mal_tensor b" ?M] sh shM lm by auto
  obtain mfn where mfn: "intersectionSum (mal_tensor b) (one_minus ?M) = Inr mfn"
      "length mfn = N"
    using intersectionSum_ok [of "mal_tensor b" "one_minus ?M"] sh shM lm
    by (auto simp: shape_one_minus)
  obtain mfp where mfp: "intersectionSum (one_minus ?L) ?M = Inr mfp"
    using intersectionSum_ok [of "one_minus ?L" ?M] shM
    by (auto simp: shape_one_minus)
  obtain ls where ls: "diceLoss (mal_tensor b) ?M epsilon_default = Inr ls" "length ls = N"
    using diceLoss_ok [of "mal_tensor b" ?M] sh shM lm by auto
  obtain m6 where m6: "assign_slice METRICS_MTP_NDX ?s (?s + N) mtp m5 = Inr m6"
      "wf_tensor n m6"
      "writes m6 = (writes m5)[METRICS_MTP_NDX := add_range ?s N (writes m5 ! METRICS_MTP_NDX)]"
      "vals m6 = (vals m5)[METRICS_MTP_NDX := take ?s (vals m5 ! METRICS_MTP_NDX) @
          mtp @ drop (?s + N) (vals m5 ! METRICS_MTP_NDX)]"
    using assign_slice_in_range [OF m5(2) _ mtp(2) rng, of METRICS_MTP_NDX]
    by (auto simp: ndx_defs)
  obtain m7 where m7: "assign_slice METRICS_MFN_NDX ?s (?s + N) mfn m6 = Inr m7"
      "wf_tensor n m7"
      "writes m7 = (writes m6)[METRICS_MFN_NDX := add_range ?s N (writes m6 ! METRICS_MFN_NDX)]"
      "vals m7 = (vals m6)[METRICS_MFN_NDX := take ?s (vals m6 ! METRICS_MFN_NDX) @
          mfn @ drop (?s + N) (vals m6 ! METRICS_MFN_NDX)]"
    using assign_slice_in_range [OF m6(2) _ mfn(2) rng, of METRICS_MFN_NDX]
    by (auto simp: ndx_defs)
  obtain m8 where m8: "assign_slice METRICS_MAL_LOSS_NDX ?s (?s + N) ls m7 = Inr m8"
      "wf_tensor n m8"
      "writes m8 = (writes m7)[METRICS_MAL_LOSS_NDX :=
          add_range ?s N (writes m7 ! METRICS_MAL_LOSS_NDX)]"
      "vals m8 = (vals m7)[METRICS_MAL_LOSS_NDX := take ?s (vals m7 ! METRICS_MAL_LOSS_NDX) @
          ls @ drop (?s + N) (vals m7 ! METRICS_MAL_LOSS_NDX)]"
    using assign_slice_in_range [OF m7(2) _ ls(2) rng, of METRICS_MAL_LOSS_NDX]
    by (auto simp: ndx_defs)
  have run: "computeBatchLoss k b bs m = Inr (mean dl, m8)"
    unfolding computeBatchLoss_def Let_def e
    by (simp only: dl(1) m1(1) m2(1) tp(1) fn(1) fp(1) m3(1) m4(1) m5(1) mp mtp(1) mfn(1)
        mfp ls(1) m6(1) m7(1) m8(1) bind_err_def sum.case)
  have lw: "length (writes m) = 10" and lv: "length (vals m) = 10"
    using wf by (simp_all add: wf_tensor_def wf_metrics_def ndx_defs)
  have W: "writes m8 = (writes m)
      [0 := add_range ?s N (writes m ! 0), 1 := add_range ?s N (writes m ! 1),
       7 := add_range ?s N (writes m ! 7), 8 := add_range ?s N (writes m ! 8),
       9 := add_range ?s N (writes m ! 9), 4 := add_range ?s N (writes m ! 4),
       5 := add_range ?s N (writes m ! 5), 2 := add_range ?s N (writes m ! 2)]"
    using lw by (simp add: m8(3) m7(3) m6(3) m5(3) m4(3) m3(3) m2(3) m1(3) ndx_defs)
  have V3: "vals m8 ! 3 = vals m ! 3" and V6: "vals m8 ! 6 = vals m ! 6"
    using lv by (simp_all add: m8(4) m7(4) m6(4) m5(4) m4(4) m3(4) m2(4) m1(4) ndx_defs)
  have rows: "\<forall>row\<in>set written_rows. writes m8 ! row = add_range ?s N (writes m ! row)"
    using lw by (simp add: written_rows_def ndx_defs W)
  have others: "\<forall>row<METRICS_SIZE. row \<notin> set written_rows \<longrightarrow>
      writes m8 ! row = writes m ! row \<and> vals m8 ! row = vals m ! row"
  proof (intro allI impI)
    fix row assume "row < METRICS_SIZE" "row \<notin> set written_rows"
    then have "row = 3 \<or> row = 6"
      by (auto simp: written_rows_def ndx_defs)
    then show "writes m8 ! row = writes m ! row \<and> vals m8 ! row = vals m ! row"
      using lw V3 V6 by (auto simp: W)
  qed
  from run m8(2) rows others show ?thesis by blast
qed


lemma add_range_replicate:
  assumes "c + N \<le> n"
  shows "add_range c N (replicate c 1 @ replicate (n - c) 0) =
           replicate (c + N) 1 @ replicate (n - (c + N)) 0"
proof -
  have "take N (replicate (n - c) (0::nat)) = replicate N 0"
    using assms by simp
  moreover have "drop (c + N) (replicate c (1::nat) @ replicate (n - c) 0) =
      replicate (n - (c + N)) 0"
    using assms by simp
  ultimately show ?thesis
    by (simp add: add_range_def replicate_add)
qed

lemma buffer_inv_zeros: "buffer_inv n 0 (zeros METRICS_SIZE n)"
  by (simp add: buffer_inv_def wf_tensor_zeros)
     (simp add: zeros_def written_rows_def ndx_defs)

lemma computeBatchLoss_inv:
  assumes inv: "buffer_inv n c m" and b: "wf_batch N b" and k: "k * bs = c"
    and rng: "c + N \<le> n"
  shows "\<exists>loss m'. computeBatchLoss k b bs m = Inr (loss, m') \<and> buffer_inv n (c + N) m'"
proof -
  from inv have wf: "wf_tensor n m" by (simp add: buffer_inv_def)
  from rng k have "k * bs + N \<le> n" by simp
  from computeBatchLoss_writes [OF wf b this] k
  obtain loss m' where r: "computeBatchLoss k b bs m = Inr (loss, m')" "wf_tensor n m'"
    "\<forall>row\<in>set written_rows. writes m' ! row = add_range c N (writes m ! row)"
    "\<forall>row<METRICS_SIZE. row \<notin> set written_rows \<longrightarrow>
       writes m' ! row = writes m ! row \<and> vals m' ! row = vals m ! row"
    by auto
  have "\<forall>row\<in>set written_rows.
      writes m' ! row = replicate (c + N) 1 @ replicate (n - (c + N)) 0"
    using r(3) inv add_range_replicate [OF rng]
    by (simp add: buffer_inv_def list_all_iff)
  moreover have "writes m' ! METRICS_MFP_NDX = writes m ! METRICS_MFP_NDX \<and>
      vals m' ! METRICS_MFP_NDX = vals m ! METRICS_MFP_NDX"
    using r(4) by (simp add: written_rows_def ndx_defs)
  moreover have "writes m' ! 3 = writes m ! 3 \<and> vals m' ! 3 = vals m ! 3"
    using r(4) by (simp add: written_rows_def ndx_defs)
  ultimately have "buffer_inv n (c + N) m'"
    using inv r(2) by (simp add: buffer_inv_def list_all_iff)
  with r(1) show ?thesis by blast
qed

lemma min_shift_full:
  fixes x bs r n :: nat
  assumes "bs \<le> r" and "r \<le> n"
  shows "n - (r - bs) + min x (r - bs) = n - r + min (bs + x) r"
  using assms by arith

lemma batch_loop_inv:
  assumes "0 < bs" and "batches_from r bs batches" and "r \<le> n"
    and "buffer_inv n (n - r) m" and "batches \<noteq> [] \<longrightarrow> k * bs = n - r"
  shows "\<exists>m'. batch_loop bs k batches m = Inr m' \<and>
           buffer_inv n (n - r + min (length batches * bs) r) m'"
  using assms
proof (induction batches arbitrary: k r m)
  case Nil
  then show ?case by simp
next
  case (Cons b rest)
  define N where "N = min bs r"
  from Cons.prems(2) have r: "0 < r" and b: "wf_batch N b"
    and rest: "batches_from (r - N) bs rest"
    by (simp_all add: N_def)
  have N: "N \<le> r" "0 < N" "N \<le> bs" using r Cons.prems(1) by (simp_all add: N_def)
  from Cons.prems(5) have k: "k * bs = n - r" by simp
  have rng: "n - r + N \<le> n" using N Cons.prems(3) by simp
  from computeBatchLoss_inv [OF Cons.prems(4) b k rng]
  obtain loss m1 where m1: "computeBatchLoss k b bs m = Inr (loss, m1)"
    "buffer_inv n (n - r + N) m1" by blast
  have c: "n - r + N = n - (r - N)" using N Cons.prems(3) by simp
  have idx: "rest \<noteq> [] \<longrightarrow> Suc k * bs = n - (r - N)"
  proof
    assume "rest \<noteq> []"
    with rest have "0 < r - N" by (cases rest) simp_all
    then have "N = bs" by (simp add: N_def min_def split: if_splits)
    with k c show "Suc k * bs = n - (r - N)" by simp
  qed
  have le: "r - N \<le> n" using Cons.prems(3) by simp
  from m1(2) have inv1: "buffer_inv n (n - (r - N)) m1" by (simp only: c)
  from Cons.IH [OF Cons.prems(1) rest le inv1 idx]
  obtain m' where m': "batch_loop bs (Suc k) rest m1 = Inr m'"
    "buffer_inv n (n - (r - N) + min (length rest * bs) (r - N)) m'" by blast
  have "n - (r - N) + min (length rest * bs) (r - N) =
      n - r + min (length (b # rest) * bs) r"
  proof (cases "bs \<le> r")
    case True
    then have "N = bs" by (simp add: N_def)
    with min_shift_full [OF True Cons.prems(3), of "length rest * bs"] show ?thesis
      by simp
  next
    case False
    then have "N = r" by (simp add: N_def)
    moreover have "r \<le> bs + length rest * bs" using False by simp
    ultimately show ?thesis using Cons.prems(3) by simp
  qed
  with m'(2) have "buffer_inv n (n - r + min (length (b # rest) * bs) r) m'"
    by simp
  moreover have "batch_loop bs k (b # rest) m = Inr m'"
    using m1(1) m'(1) by (simp add: bind_err_def)
  ultimately show ?case by blast
qed

lemma batches_from_take:
  "batches_from r bs batches \<Longrightarrow> batches_from r bs (take k batches)"
proof (induction batches arbitrary: r k)
  case Nil
  then show ?case by simp
next
  case (Cons b rest)
  then show ?case by (cases k) simp_all
qed

lemma batches_from_total:
  assumes "0 < bs" and "batches_from r bs batches"
  shows "sum_list (map (\<lambda>b. length (label_tensor b)) batches) = min (length batches * bs) r"
  using assms(2)
proof (induction batches arbitrary: r)
  case Nil
  then show ?case by simp
next
  case (Cons b rest)
  then have len: "length (label_tensor b) = min bs r"
    and rest: "batches_from (r - min bs r) bs rest"
    by (simp_all add: wf_batch_def)
  from Cons.IH [OF rest] len show ?case
    by (auto simp: min_def)
qed

text \<open>
  C4, as amended. For the batches of the data loader, after the first \<open>k\<close> batches every
  row that computeBatchLoss assigns to (label, overall loss, malignant loss, malignant
  TP and FN, all-class TP, FN and FP) has been written exactly once in the columns below
  \<open>k * batch_size\<close> and not at all beyond: batch \<open>k\<close> writes the columns from
  \<open>k * batch_size\<close> up to \<open>k * batch_size + N\<close>. At the end of the epoch each of these
  rows has been written once in every column. The malignant FP row and the unused row 3
  are never written, and the malignant FP row still holds zeros.
\<close>

theorem batches_write_once:
  assumes bs: "0 < batch_size"
    and ld: "loader_batches dataset_len batch_size test_dl"
    and k: "k \<le> length test_dl"
  shows "\<exists>m. batch_loop batch_size 0 (take k test_dl) (zeros METRICS_SIZE dataset_len) = Inr m \<and>
           (\<forall>row\<in>set written_rows.
              writes m ! row =
                replicate (min (k * batch_size) dataset_len) 1 @
                replicate (dataset_len - k * batch_size) 0) \<and>
           writes m ! METRICS_MFP_NDX = replicate dataset_len 0 \<and>
           writes m ! 3 = replicate dataset_len 0 \<and>
           vals m ! METRICS_MFP_NDX = replicate dataset_len (Fin 0) \<and>
           (k = length test_dl \<longrightarrow>
              doTesting dataset_len batch_size test_dl = Inr m \<and>
              doTraining samples_before dataset_len batch_size test_dl = Inr (m, samples_before + dataset_len) \<and>
              (\<forall>row\<in>set written_rows. writes m ! row = replicate dataset_len 1))"
proof -
  let ?n = dataset_len
  from ld have bf: "batches_from ?n batch_size test_dl"
    and tot: "sum_list (map (\<lambda>b. length (label_tensor b)) test_dl) = ?n"
    by (simp_all add: loader_batches_def)
  have bfk: "batches_from ?n batch_size (take k test_dl)"
    by (rule batches_from_take [OF bf])
  have inv0: "buffer_inv ?n (?n - ?n) (zeros METRICS_SIZE ?n)"
    using buffer_inv_zeros [of ?n] by simp
  have lk: "min (length test_dl) k = k" using k by simp
  from batch_loop_inv [OF bs bfk le_refl inv0, of 0]
  obtain m where m: "batch_loop batch_size 0 (take k test_dl) (zeros METRICS_SIZE ?n) = Inr m"
    "buffer_inv ?n (min (k * batch_size) ?n) m"
    by (auto simp: lk)
  have c: "?n - min (k * batch_size) ?n = ?n - k * batch_size" by simp
  from m(2) have "\<forall>row\<in>set written_rows.
      writes m ! row =
        replicate (min (k * batch_size) ?n) 1 @
        replicate (?n - min (k * batch_size) ?n) 0"
    by (simp add: buffer_inv_def list_all_iff)
  then have rows: "\<forall>row\<in>set written_rows.
      writes m ! row =
        replicate (min (k * batch_size) ?n) 1 @ replicate (?n - k * batch_size) 0"
    by (simp only: c)
  from m(2) have mfp: "writes m ! METRICS_MFP_NDX = replicate ?n 0"
      "writes m ! 3 = replicate ?n 0"
      "vals m ! METRICS_MFP_NDX = replicate ?n (Fin 0)"
    by (simp_all add: buffer_inv_def)
  have "doTesting ?n batch_size test_dl = Inr m \<and>
      doTraining samples_before ?n batch_size test_dl = Inr (m, samples_before + ?n) \<and>
      (\<forall>row\<in>set written_rows. writes m ! row = replicate ?n 1)"
    if "k = length test_dl"
  proof -
    from that m(1) have run: "batch_loop batch_size 0 test_dl (zeros METRICS_SIZE ?n) = Inr m"
      by simp
    from batches_from_total [OF bs bf] tot that
    have "min (k * batch_size) ?n = ?n" by simp
    then have "?n \<le> k * batch_size" by simp
    with rows have "\<forall>row\<in>set written_rows. writes m ! row = replicate ?n 1"
      by (simp add: min_absorb2)
    with run show ?thesis
      by (simp add: doTesting_def doTraining_def bind_err_def)
  qed
  with m(1) rows mfp show ?thesis by blast
qed


lemma doTesting_two_batches:
  "doTesting 3 2
     [\<lparr>label_tensor = [[Fin 1, Fin 0], [Fin 1, Fin 0]], label_list = [1, 2],
       ben_tensor = [[Fin 0, Fin 0], [Fin 1, Fin 0]],
       mal_tensor = [[Fin 1, Fin 0], [Fin 0, Fin 0]],
       prediction = [[Fin (3/4), Fin (1/4)], [Fin (3/4), Fin (1/4)]]\<rparr>,
      \<lparr>label_tensor = [[Fin 1, Fin 0]], label_list = [0],
       ben_tensor = [[Fin 0, Fin 0]], mal_tensor = [[Fin 0, Fin 0]],
       prediction = [[Fin (3/4), Fin (3/4)]]\<rparr>] =
   Inr \<lparr>vals = [[Fin 1, Fin 2, Fin 0], [Fin (1 / 2052), Fin (1 / 2052), Fin (2 / 2053)],
               [Fin 0, Fin 0, Fin (1 / 513)], [Fin 0, Fin 0, Fin 0], [Fin 1, Fin 0, Fin 0],
               [Fin 0, Fin 0, Fin 0], [Fin 0, Fin 0, Fin 0], [Fin 1, Fin 1, Fin 1],
               [Fin 0, Fin 0, Fin 0], [Fin 0, Fin 0, Fin 1]],
        writes = [[1, 1, 1], [1, 1, 1], [1, 1, 1], [0, 0, 0], [1, 1, 1], [1, 1, 1],
                  [0, 0, 0], [1, 1, 1], [1, 1, 1], [1, 1, 1]]\<rparr>"
  by code_simp

theorem batches_write_once_witness:
  "loader_batches 3 2
     [\<lparr>label_tensor = [[Fin 1, Fin 0], [Fin 1, Fin 0]], label_list = [1, 2],
       ben_tensor = [[Fin 0, Fin 0], [Fin 1, Fin 0]],
       mal_tensor = [[Fin 1, Fin 0], [Fin 0, Fin 0]],
       prediction = [[Fin (3/4), Fin (1/4)], [Fin (3/4), Fin (1/4)]]\<rparr>,
      \<lparr>label_tensor = [[Fin 1, Fin 0]], label_list = [0],
       ben_tensor = [[Fin 0, Fin 0]], mal_tensor = [[Fin 0, Fin 0]],
       prediction = [[Fin (3/4), Fin (3/4)]]\<rparr>] \<and>
   map_sum id writes
     (doTesting 3 2
        [\<lparr>label_tensor = [[Fin 1, Fin 0], [Fin 1, Fin 0]], label_list = [1, 2],
          ben_tensor = [[Fin 0, Fin 0], [Fin 1, Fin 0]],
          mal_tensor = [[Fin 1, Fin 0], [Fin 0, Fin 0]],
          prediction = [[Fin (3/4), Fin (1/4)], [Fin (3/4), Fin (1/4)]]\<rparr>,
         \<lparr>label_tensor = [[Fin 1, Fin 0]], label_list = [0],
          ben_tensor = [[Fin 0, Fin 0]], mal_tensor = [[Fin 0, Fin 0]],
          prediction = [[Fin (3/4), Fin (3/4)]]\<rparr>]) =
   Inr [[1, 1, 1], [1, 1, 1], [1, 1, 1], [0, 0, 0], [1, 1, 1], [1, 1, 1], [0, 0, 0],
        [1, 1, 1], [1, 1, 1], [1, 1, 1]]"
proof -
  let ?dl = "[\<lparr>label_tensor = [[Fin 1, Fin 0], [Fin 1, Fin 0]], label_list = [1, 2],
       ben_tensor = [[Fin 0, Fin 0], [Fin 1, Fin 0]],
       mal_tensor = [[Fin 1, Fin 0], [Fin 0, Fin 0]],
       prediction = [[Fin (3/4), Fin (1/4)], [Fin (3/4), Fin (1/4)]]\<rparr>,
      \<lparr>label_tensor = [[Fin 1, Fin 0]], label_list = [0],
       ben_tensor = [[Fin 0, Fin 0]], mal_tensor = [[Fin 0, Fin 0]],
       prediction = [[Fin (3/4), Fin (3/4)]]\<rparr>]"
  have h1: "(0::nat) < 2" by simp
  have h2: "loader_batches 3 2 ?dl"
    by (simp add: loader_batches_def wf_batch_def same_shape_def)
  have h3: "2 \<le> length ?dl" by simp
  from batches_write_once [OF h1 h2 h3] h2 doTesting_two_batches show ?thesis
    by simp
qed

text \<open>
  C4 as stated counts the malignant FP row among the rows that are written. The
  assignment to that row is commented out in computeBatchLoss: on a batch of one sample
  whose malignant false positives sum to 1, the row is not written and holds 0 after
  the epoch.
\<close>

theorem mfp_row_counterexample:
  "intersectionSum (one_minus [[Fin 1, Fin 0]])
     (tmul (threshold [[Fin (3/4), Fin (3/4)]]) (one_minus [[Fin 0, Fin 0]])) = Inr [Fin 1] \<and>
   map_sum id (\<lambda>m. (writes m ! METRICS_MFP_NDX, vals m ! METRICS_MFP_NDX))
     (doTesting 1 1
        [\<lparr>label_tensor = [[Fin 1, Fin 0]], label_list = [1],
          ben_tensor = [[Fin 0, Fin 0]], mal_tensor = [[Fin 1, Fin 0]],
          prediction = [[Fin (3/4), Fin (3/4)]]\<rparr>]) = Inr ([0], [Fin 0])"
  by code_simp

end
